theory Spec2Isabelle
  imports Main "HOL-Library.Word"
begin

unbundle bit_operations_syntax

section \<open>Bytes, errors and addresses\<close>

text \<open>
  Go's \<^verbatim>\<open>[]byte\<close> is a list of 8-bit words. The fixed-size arrays \<^verbatim>\<open>[24]byte\<close> (nonce) and
  \<^verbatim>\<open>[32]byte\<close> (key) are byte lists too; their lengths are stated where a result depends on
  them. A Go \<^verbatim>\<open>error\<close> is a value carrying its message.
\<close>

type_synonym byte = "8 word"
type_synonym uint32 = "32 word"

datatype error = Error string

text \<open>\<^verbatim>\<open>*net.UDPAddr\<close>: the address record; the nil pointer is \<open>None\<close> of the option type.\<close>

datatype UDPAddr = UDPAddr (IP: "byte list") (Port: nat) (Zone: string)

section \<open>The secretbox primitive as the envelope uses it\<close>

text \<open>
  \<^verbatim>\<open>golang.org/x/crypto/nacl/secretbox\<close> is an external package. The envelope calls two of its
  functions, \<^verbatim>\<open>Seal(out, message, &nonce, &key)\<close> and \<^verbatim>\<open>Open(out, box, &nonce, &key)\<close>;
  the second returns \<^verbatim>\<open>([]byte, bool)\<close>, here an option. The envelope is defined over any
  pair of such functions; the NaCl construction itself is modelled further below.
\<close>

record secretbox =
  Seal :: "byte list \<Rightarrow> byte list \<Rightarrow> byte list \<Rightarrow> byte list \<Rightarrow> byte list"
  Open :: "byte list \<Rightarrow> byte list \<Rightarrow> byte list \<Rightarrow> byte list \<Rightarrow> byte list option"

text \<open>\<^verbatim>\<open>secretbox.Overhead\<close>, the size of the Poly1305 tag.\<close>

definition Overhead :: nat where
  "Overhead = 16"

text \<open>
  What the package documents of the two functions, for a 24-byte nonce and a 32-byte key:
  \<^verbatim>\<open>Seal\<close> appends to \<open>out\<close> a box that is \<open>Overhead\<close> bytes longer than the message and
  that depends on message, nonce and key only; \<^verbatim>\<open>Open\<close> of that box under the same nonce and
  key appends the message to its own \<open>out\<close>; \<^verbatim>\<open>Open\<close> refuses a box shorter than
  \<open>Overhead\<close>, and what it returns is its \<open>out\<close> extended by \<open>Overhead\<close> bytes less than the
  box.
\<close>

definition secretbox_contract :: "secretbox \<Rightarrow> bool" where
  "secretbox_contract sb \<longleftrightarrow>
     (\<forall>out msg n k. length n = 24 \<and> length k = 32 \<longrightarrow>
        Seal sb out msg n k = out @ Seal sb [] msg n k \<and>
        length (Seal sb [] msg n k) = length msg + Overhead \<and>
        (\<forall>out'. Open sb out' (Seal sb [] msg n k) n k = Some (out' @ msg))) \<and>
     (\<forall>out bx n k r. length n = 24 \<and> length k = 32 \<and> Open sb out bx n k = Some r \<longrightarrow>
        Overhead \<le> length bx \<and> length r = length out + (length bx - Overhead))"

section \<open>The crypto envelope\<close>

text \<open>
  \<^verbatim>\<open>type box struct { key [32]byte; enable bool }\<close>, the same in both variants of the
  program (\<^verbatim>\<open>mini_overlay.go\<close> and the second copy of \<^verbatim>\<open>main.go\<close>).
\<close>

record box =
  key :: "byte list"
  enable :: bool

text \<open>
  \<^verbatim>\<open>func (b *box) seal(dst, msg []byte) ([]byte, error)\<close>. The argument \<open>rnd\<close> is what
  \<^verbatim>\<open>io.ReadFull(cryptoRand.Reader, nonce[:])\<close> delivers, an error or the 24 bytes of the nonce;
  it is read only when encryption is enabled. \<^verbatim>\<open>dst[:0]\<close> is the empty slice over the buffer
  of \<open>dst\<close>.
\<close>

definition box_seal ::
  "secretbox \<Rightarrow> box \<Rightarrow> byte list \<Rightarrow> error + byte list \<Rightarrow> byte list \<Rightarrow> error + byte list" where
  "box_seal sb b dst rnd msg =
     (if \<not> enable b then Inr (dst @ msg)
      else case rnd of
        Inl err \<Rightarrow> Inl err
      | Inr nonce \<Rightarrow>
          (let out = [];
               out = out @ nonce;
               out = Seal sb out msg nonce (key b)
           in Inr out))"

text \<open>
  \<^verbatim>\<open>func (b *box) open(dst, pkt []byte) ([]byte, bool)\<close>; \<open>None\<close> is the result
  \<^verbatim>\<open>(nil, false)\<close>.
\<close>

definition box_open :: "secretbox \<Rightarrow> box \<Rightarrow> byte list \<Rightarrow> byte list \<Rightarrow> byte list option" where
  "box_open sb b dst pkt =
     (if \<not> enable b then Some (dst @ pkt)
      else if length pkt < 24 then None
      else
        (let nonce = take 24 pkt
         in Open sb [] (drop 24 pkt) nonce (key b)))"

section \<open>The NaCl secretbox construction\<close>

text \<open>
  A functional model of what \<^verbatim>\<open>secretbox.Seal\<close> and \<^verbatim>\<open>secretbox.Open\<close> compute:
  XSalsa20 (HSalsa20 for the subkey, then the Salsa20 stream) with a Poly1305 authenticator,
  following the package's Go code function by function (\<^verbatim>\<open>salsa20/salsa\<close>,
  \<^verbatim>\<open>poly1305\<close>, \<^verbatim>\<open>nacl/secretbox\<close>). It is the concrete primitive at which the contract
  above is discharged, and it fixes the byte layout of a box.
\<close>

subsection \<open>Salsa20 core and HSalsa20\<close>

text \<open>\<^verbatim>\<open>salsa.Sigma\<close>, the constant of Salsa20 with a 256-bit key.\<close>

definition Sigma :: "byte list" where
  "Sigma = map (of_nat \<circ> of_char) ''expand 32-byte k''"

text \<open>\<^verbatim>\<open>uint32(b[i]) | uint32(b[i+1])<<8 | uint32(b[i+2])<<16 | uint32(b[i+3])<<24\<close>\<close>

definition le32 :: "byte list \<Rightarrow> nat \<Rightarrow> uint32" where
  "le32 b i = ucast (b ! i) OR push_bit 8 (ucast (b ! (i + 1))) OR
              push_bit 16 (ucast (b ! (i + 2))) OR push_bit 24 (ucast (b ! (i + 3)))"

text \<open>\<^verbatim>\<open>byte(w), byte(w >> 8), byte(w >> 16), byte(w >> 24)\<close>\<close>

definition bytes32 :: "uint32 \<Rightarrow> byte list" where
  "bytes32 w = [ucast w, ucast (drop_bit 8 w), ucast (drop_bit 16 w), ucast (drop_bit 24 w)]"

text \<open>One line pair of the round loop: \<^verbatim>\<open>u := a + d; x ^= u<<n | u>>(32-n)\<close>.\<close>

definition mix :: "nat \<Rightarrow> uint32 \<Rightarrow> uint32 \<Rightarrow> uint32 \<Rightarrow> uint32" where
  "mix n x a d = (let u = a + d in x XOR (push_bit n u OR drop_bit (32 - n) u))"

text \<open>
  The sixteen variables \<^verbatim>\<open>x0 .. x15\<close> are a list indexed 0 to 15; \<open>qstep n t a d\<close> is the
  assignment \<^verbatim>\<open>u := xa + xd; xt ^= u<<n | u>>(32-n)\<close>, and a quarter round is four of them
  in sequence (the argument of a composition runs first).
\<close>

definition qstep :: "nat \<Rightarrow> nat \<Rightarrow> nat \<Rightarrow> nat \<Rightarrow> uint32 list \<Rightarrow> uint32 list" where
  "qstep n t a d x = x[t := mix n (x ! t) (x ! a) (x ! d)]"

definition quarter :: "nat \<Rightarrow> nat \<Rightarrow> nat \<Rightarrow> nat \<Rightarrow> uint32 list \<Rightarrow> uint32 list" where
  "quarter a b c d x = qstep 18 a d c (qstep 13 d c b (qstep 9 c b a (qstep 7 b a d x)))"

text \<open>The body of \<^verbatim>\<open>for i := 0; i < rounds; i += 2\<close>: four column and four row quarter rounds.\<close>

definition double_round :: "uint32 list \<Rightarrow> uint32 list" where
  "double_round x =
     quarter 15 12 13 14 (quarter 10 11 8 9 (quarter 5 6 7 4 (quarter 0 1 2 3
       (quarter 15 3 7 11 (quarter 10 14 2 6 (quarter 5 9 13 1 (quarter 0 4 8 12 x)))))))"

text \<open>The initial words \<^verbatim>\<open>j0 .. j15\<close> from constant \<open>c\<close>, key \<open>k\<close> and input \<open>inp\<close>.\<close>

definition salsa_input :: "byte list \<Rightarrow> byte list \<Rightarrow> byte list \<Rightarrow> uint32 list" where
  "salsa_input inp k c =
     [le32 c 0, le32 k 0, le32 k 4, le32 k 8, le32 k 12, le32 c 4,
      le32 inp 0, le32 inp 4, le32 inp 8, le32 inp 12, le32 c 8,
      le32 k 16, le32 k 20, le32 k 24, le32 k 28, le32 c 12]"

text \<open>\<^verbatim>\<open>salsa.core\<close>: twenty rounds, then \<^verbatim>\<open>x_i += j_i\<close>, written out little-endian (64 bytes).\<close>

definition salsa_core :: "byte list \<Rightarrow> byte list \<Rightarrow> byte list \<Rightarrow> byte list" where
  "salsa_core inp k c =
     (let j = salsa_input inp k c; x = (double_round ^^ 10) j
      in concat (map (\<lambda>i. bytes32 (x ! i + j ! i)) [0..<16]))"

text \<open>\<^verbatim>\<open>salsa.HSalsa20\<close>: the same rounds, no final addition, eight of the words (32 bytes).\<close>

definition HSalsa20 :: "byte list \<Rightarrow> byte list \<Rightarrow> byte list \<Rightarrow> byte list" where
  "HSalsa20 inp k c =
     (let x = (double_round ^^ 10) (salsa_input inp k c)
      in concat (map (\<lambda>i. bytes32 (x ! i)) [0, 5, 10, 15, 6, 7, 8, 9]))"

subsection \<open>The Salsa20 key stream\<close>

text \<open>
  The block counter, bytes 8 to 15 of the counter array, is incremented by
  \<^verbatim>\<open>u := uint32(1); for i := 8; i < 16; i++ { u += uint32(c[i]); c[i] = byte(u); u >>= 8 }\<close>.
\<close>

function counter_incr :: "nat \<Rightarrow> uint32 \<Rightarrow> byte list \<Rightarrow> byte list" where
  "counter_incr i u c =
     (if i < 16 then
        (let u = u + ucast (c ! i)
         in counter_incr (i + 1) (drop_bit 8 u) (c[i := ucast u]))
      else c)"
  by pat_completeness auto
termination
  by (relation "measure (\<lambda>(i, u, c). 16 - i)") auto

declare counter_incr.simps [simp del]

text \<open>
  \<^verbatim>\<open>salsa.XORKeyStream(out, in, counter, key)\<close>: whole 64-byte blocks while
  \<^verbatim>\<open>len(in) >= 64\<close>, then the remainder against the next block. The result is the content
  of \<open>out\<close>.
\<close>

function XORKeyStream :: "byte list \<Rightarrow> byte list \<Rightarrow> byte list \<Rightarrow> byte list" where
  "XORKeyStream inp counter k =
     (if 64 \<le> length inp then
        map2 (XOR) (take 64 inp) (salsa_core counter k Sigma) @
        XORKeyStream (drop 64 inp) (counter_incr 8 1 counter) k
      else if 0 < length inp then map2 (XOR) inp (salsa_core counter k Sigma)
      else [])"
  by pat_completeness auto
termination
  by (relation "measure (\<lambda>(inp, counter, k). length inp)") auto

declare XORKeyStream.simps [simp del]

subsection \<open>Poly1305\<close>

text \<open>
  The authenticator as the arithmetic it computes: the message in 16-byte blocks, each read
  little-endian with a high bit appended, accumulated as \<open>h := (h + n) * r mod (2^130 - 5)\<close>
  with the clamped \<open>r\<close> from the first half of the one-time key; the tag is \<open>h + s\<close> modulo
  \<open>2^128\<close> with \<open>s\<close> from the second half.
\<close>

definition le_num :: "byte list \<Rightarrow> nat" where
  "le_num bs = foldr (\<lambda>b n. unat b + 256 * n) bs 0"

definition num_le :: "nat \<Rightarrow> nat \<Rightarrow> byte list" where
  "num_le len n = map (\<lambda>i. of_nat (n div 256 ^ i)) [0..<len]"

function poly1305_blocks :: "nat \<Rightarrow> nat \<Rightarrow> byte list \<Rightarrow> nat" where
  "poly1305_blocks h r m =
     (if m = [] then h
      else
        (let blk = take 16 m;
             n = le_num blk + 2 ^ (8 * length blk)
         in poly1305_blocks (((h + n) * r) mod (2 ^ 130 - 5)) r (drop 16 m)))"
  by pat_completeness auto
termination
  by (relation "measure (\<lambda>(h, r, m). length m)") auto

declare poly1305_blocks.simps [simp del]

text \<open>\<^verbatim>\<open>poly1305.Sum(&tag, m, &key)\<close> and \<^verbatim>\<open>poly1305.Verify(&mac, m, &key)\<close>.\<close>

definition poly1305_Sum :: "byte list \<Rightarrow> byte list \<Rightarrow> byte list" where
  "poly1305_Sum m k =
     (let r = le_num (take 16 k) AND 0x0ffffffc0ffffffc0ffffffc0fffffff;
          s = le_num (take 16 (drop 16 k));
          h = poly1305_blocks 0 r m
      in num_le 16 ((h + s) mod 2 ^ 128))"

definition poly1305_Verify :: "byte list \<Rightarrow> byte list \<Rightarrow> byte list \<Rightarrow> bool" where
  "poly1305_Verify mac m k \<longleftrightarrow> poly1305_Sum m k = mac"

subsection \<open>Seal and Open\<close>

text \<open>
  \<^verbatim>\<open>secretbox.setup\<close>: the subkey is HSalsa20 of the first 16 nonce bytes under the key; the
  last 8 nonce bytes start the 16-byte counter array, whose block counter is zero.
\<close>

definition secretbox_setup :: "byte list \<Rightarrow> byte list \<Rightarrow> byte list \<times> byte list" where
  "secretbox_setup nonce k =
     (let hNonce = take 16 nonce;
          subKey = HSalsa20 hNonce k Sigma;
          counter = drop 16 nonce @ replicate 8 0
      in (subKey, counter))"

text \<open>
  The first key-stream block: its first 32 bytes are the one-time Poly1305 key, its last 32
  bytes encrypt the first 32 bytes of the message.
\<close>

definition secretbox_firstBlock :: "byte list \<Rightarrow> byte list \<Rightarrow> byte list" where
  "secretbox_firstBlock nonce k =
     (let (subKey, counter) = secretbox_setup nonce k
      in XORKeyStream (replicate 64 0) counter subKey)"

text \<open>
  The XSalsa20 encryption of the message (decryption is the same function): up to 32 bytes
  against the first block, the rest against the stream from block counter 1
  (\<^verbatim>\<open>counter[8] = 1\<close>).
\<close>

definition secretbox_ciphertext :: "byte list \<Rightarrow> byte list \<Rightarrow> byte list \<Rightarrow> byte list" where
  "secretbox_ciphertext message nonce k =
     (let (subKey, counter) = secretbox_setup nonce k;
          firstBlock = secretbox_firstBlock nonce k;
          firstMessageBlock = take 32 message;
          c1 = map2 (XOR) (drop 32 firstBlock) firstMessageBlock;
          message = drop (length firstMessageBlock) message;
          counter = counter[8 := 1]
      in c1 @ XORKeyStream message counter subKey)"

text \<open>The Poly1305 tag over the ciphertext under the one-time key.\<close>

definition secretbox_tag :: "byte list \<Rightarrow> byte list \<Rightarrow> byte list \<Rightarrow> byte list" where
  "secretbox_tag message nonce k =
     (let poly1305Key = take 32 (secretbox_firstBlock nonce k)
      in poly1305_Sum (secretbox_ciphertext message nonce k) poly1305Key)"

text \<open>
  \<^verbatim>\<open>secretbox.Seal\<close>: in the appended region the tag is written first
  (\<^verbatim>\<open>tagOut := out; out = out[poly1305.TagSize:]\<close>) and the ciphertext after it.
\<close>

definition secretbox_Seal :: "byte list \<Rightarrow> byte list \<Rightarrow> byte list \<Rightarrow> byte list \<Rightarrow> byte list" where
  "secretbox_Seal out message nonce k =
     (let ciphertext = secretbox_ciphertext message nonce k;
          tag = secretbox_tag message nonce k
      in out @ tag @ ciphertext)"

text \<open>
  \<^verbatim>\<open>secretbox.Open\<close>: a box shorter than the tag is refused; the tag is the first 16 bytes
  and is verified over the rest before anything is decrypted.
\<close>

definition secretbox_Open ::
  "byte list \<Rightarrow> byte list \<Rightarrow> byte list \<Rightarrow> byte list \<Rightarrow> byte list option" where
  "secretbox_Open out bx nonce k =
     (if length bx < Overhead then None
      else
        (let poly1305Key = take 32 (secretbox_firstBlock nonce k);
             tag = take 16 bx
         in if \<not> poly1305_Verify tag (drop Overhead bx) poly1305Key then None
            else Some (out @ secretbox_ciphertext (drop Overhead bx) nonce k)))"

definition nacl :: secretbox where
  "nacl = \<lparr>Seal = secretbox_Seal, Open = secretbox_Open\<rparr>"

section \<open>The datapath\<close>

text \<open>
  The program exists in two variants: \<^verbatim>\<open>mini_overlay/mini_overlay.go\<close>, whose \<^verbatim>\<open>main\<close> starts
  the outbound and the inbound goroutine, and a second \<^verbatim>\<open>main.go\<close>, which also starts a
  keepalive goroutine. Envelope, outbound loop and inbound loop are the same code in both.

  What the goroutines do to the outside is recorded as a trace of actions.
\<close>

datatype action =
    LogPrintln string error  \<comment> \<open>\<^verbatim>\<open>log.Println(label, err)\<close>\<close>
  | PeerLearned UDPAddr  \<comment> \<open>the line \<^verbatim>\<open>"Peer learned:", raddr.String()\<close>\<close>
  | WriteToUDP "byte list" UDPAddr  \<comment> \<open>\<^verbatim>\<open>conn.WriteToUDP(datagram, raddr)\<close>\<close>
  | TunWrite "byte list"  \<comment> \<open>\<^verbatim>\<open>ifce.Write(plain)\<close>\<close>
  | Bye  \<comment> \<open>\<^verbatim>\<open>main\<close> returns\<close>

text \<open>
  The shared variable \<^verbatim>\<open>raddr\<close> (\<open>None\<close> is \<^verbatim>\<open>nil\<close>), which goroutines are still in their
  loop, whether \<^verbatim>\<open>main\<close> is still waiting on the signal channel, and the trace so far.
\<close>

record state =
  raddr :: "UDPAddr option"
  outbound_running :: bool
  inbound_running :: bool
  main_running :: bool
  trace :: "action list"

text \<open>
  The state when the goroutines start. The argument is \<^verbatim>\<open>raddr\<close> after flag handling: the
  resolved \<^verbatim>\<open>-peer\<close> address, or \<^verbatim>\<open>nil\<close> when the flag is empty.
\<close>

definition initial :: "UDPAddr option \<Rightarrow> state" where
  "initial peer =
     \<lparr>raddr = peer, outbound_running = True, inbound_running = True, main_running = True,
      trace = []\<rparr>"

text \<open>
  One iteration of the outbound loop (TUN to UDP). \<open>rd\<close> is the result of
  \<^verbatim>\<open>ifce.Read(buf)\<close>, an error or the packet \<^verbatim>\<open>buf[:n]\<close>; \<open>rnd\<close> is the random source as
  in \<open>box_seal\<close>; \<open>wr\<close> is the error of \<^verbatim>\<open>conn.WriteToUDP\<close>, if any. The destination buffer
  handed to \<^verbatim>\<open>seal\<close> is \<^verbatim>\<open>out[:0]\<close>.
\<close>

definition outbound ::
  "secretbox \<Rightarrow> box \<Rightarrow> error + byte list \<Rightarrow> error + byte list \<Rightarrow> error option \<Rightarrow>
   state \<Rightarrow> state" where
  "outbound sb b rd rnd wr s =
     (case rd of
        Inl err \<Rightarrow>
          s\<lparr>trace := trace s @ [LogPrintln ''tun read:'' err], outbound_running := False\<rparr>
      | Inr pkt \<Rightarrow>
          (case box_seal sb b [] rnd pkt of
             Inl err \<Rightarrow> s\<lparr>trace := trace s @ [LogPrintln ''seal:'' err]\<rparr>
           | Inr sealed \<Rightarrow>
               (case raddr s of
                  None \<Rightarrow> s
                | Some peer \<Rightarrow>
                    (case wr of
                       None \<Rightarrow> s\<lparr>trace := trace s @ [WriteToUDP sealed peer]\<rparr>
                     | Some err \<Rightarrow>
                         s\<lparr>trace := trace s @
                              [WriteToUDP sealed peer, LogPrintln ''udp write:'' err]\<rparr>))))"

text \<open>
  One iteration of the inbound loop (UDP to TUN). \<open>rd\<close> is the result of
  \<^verbatim>\<open>conn.ReadFromUDP(buf)\<close>, an error or the datagram \<^verbatim>\<open>buf[:n]\<close> with its sender; \<open>wr\<close> is
  the error of \<^verbatim>\<open>ifce.Write\<close>, if any. The peer is learned before the datagram is opened.
\<close>

definition learn :: "UDPAddr \<Rightarrow> state \<Rightarrow> state" where
  "learn sender s =
     (if raddr s = None
      then s\<lparr>raddr := Some sender, trace := trace s @ [PeerLearned sender]\<rparr>
      else s)"

definition inbound ::
  "secretbox \<Rightarrow> box \<Rightarrow> error + byte list \<times> UDPAddr \<Rightarrow> error option \<Rightarrow> state \<Rightarrow> state" where
  "inbound sb b rd wr s =
     (case rd of
        Inl err \<Rightarrow>
          s\<lparr>trace := trace s @ [LogPrintln ''udp read:'' err], inbound_running := False\<rparr>
      | Inr (pkt, sender) \<Rightarrow>
          (let s = learn sender s
           in case box_open sb b [] pkt of
                None \<Rightarrow> s
              | Some plain \<Rightarrow>
                  (case wr of
                     None \<Rightarrow> s\<lparr>trace := trace s @ [TunWrite plain]\<rparr>
                   | Some err \<Rightarrow>
                       s\<lparr>trace := trace s @ [TunWrite plain, LogPrintln ''tun write:'' err]\<rparr>)))"

text \<open>
  The keepalive goroutine of the second variant: \<^verbatim>\<open>time.NewTicker(15 * time.Second)\<close>, and on
  each tick, with \<open>r\<close> the byte \<^verbatim>\<open>byte(rand.Intn(256))\<close>, the body below. A seal error is
  dropped without a log line and the result of \<^verbatim>\<open>WriteToUDP\<close> is discarded.
\<close>

definition keepalive_seconds :: nat where
  "keepalive_seconds = 15"

definition keepalive :: "secretbox \<Rightarrow> box \<Rightarrow> byte \<Rightarrow> error + byte list \<Rightarrow> state \<Rightarrow> state" where
  "keepalive sb b r rnd s =
     (case raddr s of
        None \<Rightarrow> s
      | Some peer \<Rightarrow>
          (case box_seal sb b [] rnd [r] of
             Inl err \<Rightarrow> s
           | Inr msg \<Rightarrow> s\<lparr>trace := trace s @ [WriteToUDP msg peer]\<rparr>))"

text \<open>
  What the environment does to the process: a read on the TUN device returns, a read on the
  UDP socket returns, the keepalive period has elapsed, a termination signal arrives. Each
  carries the results of the calls made while it is handled. The goroutines interleave at
  whole iterations; \<^verbatim>\<open>raddr\<close> is written by the inbound goroutine only, and only from
  \<^verbatim>\<open>nil\<close>, so a finer interleaving shows the other goroutines no further values of it.
\<close>

datatype event =
    TunRead "error + byte list" "error + byte list" "error option"
  | UdpRead "error + byte list \<times> UDPAddr" "error option"
  | Tick byte "error + byte list"
  | Signal

text \<open>
  \<^verbatim>\<open>mini_overlay.go\<close>: two goroutines; nothing in it waits on a timer. After \<^verbatim>\<open>main\<close> has
  returned nothing runs.
\<close>

definition step_mini_overlay :: "secretbox \<Rightarrow> box \<Rightarrow> state \<Rightarrow> event \<Rightarrow> state" where
  "step_mini_overlay sb b s ev =
     (if \<not> main_running s then s
      else case ev of
        TunRead rd rnd wr \<Rightarrow> if outbound_running s then outbound sb b rd rnd wr s else s
      | UdpRead rd wr \<Rightarrow> if inbound_running s then inbound sb b rd wr s else s
      | Tick r rnd \<Rightarrow> s
      | Signal \<Rightarrow> s\<lparr>trace := trace s @ [Bye], main_running := False\<rparr>)"

text \<open>The second variant: the same two goroutines and the keepalive goroutine.\<close>

definition step_keepalive :: "secretbox \<Rightarrow> box \<Rightarrow> state \<Rightarrow> event \<Rightarrow> state" where
  "step_keepalive sb b s ev =
     (if \<not> main_running s then s
      else case ev of
        TunRead rd rnd wr \<Rightarrow> if outbound_running s then outbound sb b rd rnd wr s else s
      | UdpRead rd wr \<Rightarrow> if inbound_running s then inbound sb b rd wr s else s
      | Tick r rnd \<Rightarrow> keepalive sb b r rnd s
      | Signal \<Rightarrow> s\<lparr>trace := trace s @ [Bye], main_running := False\<rparr>)"

text \<open>A run of the process over a sequence of events.\<close>

fun run :: "(state \<Rightarrow> event \<Rightarrow> state) \<Rightarrow> state \<Rightarrow> event list \<Rightarrow> state" where
  "run step s [] = s"
| "run step s (ev # evs) = run step (step s ev) evs"

text \<open>The number of events of a run at which the value of \<^verbatim>\<open>raddr\<close> changes.\<close>

fun raddr_changes :: "(state \<Rightarrow> event \<Rightarrow> state) \<Rightarrow> state \<Rightarrow> event list \<Rightarrow> nat" where
  "raddr_changes step s [] = 0"
| "raddr_changes step s (ev # evs) =
     (if raddr (step s ev) = raddr s then 0 else 1) + raddr_changes step (step s ev) evs"

text \<open>The datagrams handed to the UDP socket, with their destinations, in order.\<close>

fun sent :: "action list \<Rightarrow> (byte list \<times> UDPAddr) list" where
  "sent [] = []"
| "sent (WriteToUDP d a # acts) = (d, a) # sent acts"
| "sent (act # acts) = sent acts"

text \<open>The sender of the datagram an event delivers, if it delivers one.\<close>

fun datagram_from :: "event \<Rightarrow> UDPAddr option" where
  "datagram_from (UdpRead (Inr (pkt, sender)) wr) = Some sender"
| "datagram_from ev = None"

section \<open>Properties of the NaCl construction\<close>

text \<open>
  The stream cipher is an involution and preserves length, the tag has 16 bytes; hence the
  construction meets the contract of the primitive.
\<close>

lemma length_bytes32: "length (bytes32 w) = 4"
  by (simp add: bytes32_def)

lemma length_salsa_core: "length (salsa_core inp k c) = 64"
  by (simp add: salsa_core_def Let_def length_concat comp_def length_bytes32 sum_list_triv)

lemma xor_bytes_twice: "map2 (XOR) (map2 (XOR) (xs :: byte list) ks) ks = take (length ks) xs"
proof (induction xs arbitrary: ks)
  case Nil
  then show ?case by simp
next
  case (Cons x xs)
  then show ?case by (cases ks) (simp_all add: xor.assoc)
qed

lemma stream_xor_twice:
  "map2 (XOR) ks (map2 (XOR) ks (xs :: byte list)) = take (length ks) xs"
proof (induction xs arbitrary: ks)
  case Nil
  then show ?case by simp
next
  case (Cons x xs)
  then show ?case by (cases ks) (simp_all flip: xor.assoc)
qed

lemma length_XORKeyStream: "length (XORKeyStream inp counter k) = length inp"
proof (induction inp counter k rule: XORKeyStream.induct)
  case (1 inp counter k)
  show ?case
  proof (cases "64 \<le> length inp")
    case True
    with 1 show ?thesis
      by (subst XORKeyStream.simps) (simp add: length_salsa_core)
  next
    case False
    then show ?thesis
      by (subst XORKeyStream.simps) (simp add: length_salsa_core)
  qed
qed

lemma XORKeyStream_twice: "XORKeyStream (XORKeyStream inp counter k) counter k = inp"
proof (induction inp counter k rule: XORKeyStream.induct)
  case (1 inp counter k)
  let ?blk = "salsa_core counter k Sigma"
  show ?case
  proof (cases "64 \<le> length inp")
    case True
    let ?hd = "map2 (XOR) (take 64 inp) ?blk"
    let ?tl = "XORKeyStream (drop 64 inp) (counter_incr 8 1 counter) k"
    have out: "XORKeyStream inp counter k = ?hd @ ?tl"
      using True by (subst XORKeyStream.simps) simp
    have len_hd: "length ?hd = 64"
      using True by (simp add: length_salsa_core)
    have "XORKeyStream (?hd @ ?tl) counter k =
          map2 (XOR) ?hd ?blk @ XORKeyStream ?tl (counter_incr 8 1 counter) k"
      using len_hd by (subst XORKeyStream.simps) simp
    also have "map2 (XOR) ?hd ?blk = take 64 inp"
      using True by (simp add: xor_bytes_twice length_salsa_core)
    also have "XORKeyStream ?tl (counter_incr 8 1 counter) k = drop 64 inp"
      using 1 True by simp
    finally show ?thesis by (simp add: out)
  next
    case False
    show ?thesis
    proof (cases "inp = []")
      case True
      then show ?thesis by (subst XORKeyStream.simps, subst XORKeyStream.simps) simp
    next
      case nonempty: False
      have out: "XORKeyStream inp counter k = map2 (XOR) inp ?blk"
        using False nonempty by (subst XORKeyStream.simps) simp
      have len: "length (map2 (XOR) inp ?blk) = length inp"
        using False by (simp add: length_salsa_core)
      have "XORKeyStream (map2 (XOR) inp ?blk) counter k = map2 (XOR) (map2 (XOR) inp ?blk) ?blk"
        using False nonempty len by (subst XORKeyStream.simps) simp
      also have "\<dots> = inp"
        using False by (simp add: xor_bytes_twice length_salsa_core)
      finally show ?thesis by (simp add: out)
    qed
  qed
qed

lemma length_poly1305_Sum: "length (poly1305_Sum m k) = 16"
  by (simp add: poly1305_Sum_def num_le_def Let_def)

lemma length_secretbox_firstBlock: "length (secretbox_firstBlock nonce k) = 64"
  by (simp add: secretbox_firstBlock_def length_XORKeyStream split: prod.split)

lemma length_secretbox_ciphertext:
  "length (secretbox_ciphertext message nonce k) = length message"
  by (simp add: secretbox_ciphertext_def Let_def length_XORKeyStream
      length_secretbox_firstBlock split: prod.split)

lemma length_secretbox_tag: "length (secretbox_tag message nonce k) = 16"
  by (simp add: secretbox_tag_def Let_def length_poly1305_Sum)

lemma secretbox_ciphertext_twice:
  "secretbox_ciphertext (secretbox_ciphertext message nonce k) nonce k = message"
proof -
  obtain subKey counter where su: "secretbox_setup nonce k = (subKey, counter)"
    by (cases "secretbox_setup nonce k")
  let ?fb = "drop 32 (secretbox_firstBlock nonce k)"
  let ?c1 = "map2 (XOR) ?fb (take 32 message)"
  let ?c2 = "XORKeyStream (drop (length (take 32 message)) message) (counter[8 := 1]) subKey"
  have ct: "secretbox_ciphertext message nonce k = ?c1 @ ?c2"
    by (simp add: secretbox_ciphertext_def su Let_def)
  have len_fb: "length ?fb = 32"
    by (simp add: length_secretbox_firstBlock)
  have len_c1: "length ?c1 = min 32 (length message)"
    by (simp add: length_secretbox_firstBlock)
  have len_c2: "length ?c2 = length message - 32"
    by (simp add: length_XORKeyStream)
  have tk: "take 32 (?c1 @ ?c2) = ?c1"
  proof (cases "32 \<le> length message")
    case True
    then show ?thesis using len_c1 by simp
  next
    case False
    then have "length ?c2 = 0" using len_c2 by simp
    then show ?thesis by simp
  qed
  have dr: "drop (length ?c1) (?c1 @ ?c2) = ?c2"
    by simp
  have "secretbox_ciphertext (?c1 @ ?c2) nonce k =
        map2 (XOR) ?fb (take 32 (?c1 @ ?c2)) @
        XORKeyStream (drop (length (take 32 (?c1 @ ?c2))) (?c1 @ ?c2)) (counter[8 := 1]) subKey"
    by (simp only: secretbox_ciphertext_def su Let_def prod.case)
  also have "\<dots> = map2 (XOR) ?fb ?c1 @ XORKeyStream ?c2 (counter[8 := 1]) subKey"
    by (simp only: tk dr)
  also have "map2 (XOR) ?fb ?c1 = take 32 message"
    by (simp add: stream_xor_twice length_secretbox_firstBlock)
  also have "XORKeyStream ?c2 (counter[8 := 1]) subKey = drop 32 message"
    by (simp add: XORKeyStream_twice min_def)
  finally show ?thesis
    by (simp add: ct)
qed

lemma secretbox_Seal_layout:
  "secretbox_Seal out message nonce k =
     out @ secretbox_tag message nonce k @ secretbox_ciphertext message nonce k"
  by (simp add: secretbox_Seal_def Let_def)

lemma secretbox_Open_Seal:
  "secretbox_Open out' (secretbox_Seal [] message nonce k) nonce k = Some (out' @ message)"
  by (simp add: secretbox_Open_def secretbox_Seal_layout Overhead_def length_secretbox_tag
      poly1305_Verify_def Let_def secretbox_ciphertext_twice)
     (simp add: secretbox_tag_def)

lemma secretbox_Open_length:
  assumes "secretbox_Open out bx nonce k = Some r"
  shows "Overhead \<le> length bx \<and> length r = length out + (length bx - Overhead)"
  using assms
  by (auto simp: secretbox_Open_def Let_def length_secretbox_ciphertext split: if_splits)

lemma nacl_contract: "secretbox_contract nacl"
  unfolding secretbox_contract_def
proof (intro conjI allI impI)
  fix out msg n k
  show "Seal nacl out msg n k = out @ Seal nacl [] msg n k"
    by (simp add: nacl_def secretbox_Seal_layout)
  show "length (Seal nacl [] msg n k) = length msg + Overhead"
    by (simp add: nacl_def secretbox_Seal_layout length_secretbox_tag
        length_secretbox_ciphertext Overhead_def)
  show "Open nacl out' (Seal nacl [] msg n k) n k = Some (out' @ msg)" for out'
    by (simp add: nacl_def secretbox_Open_Seal)
next
  fix out bx n k r
  assume "length n = 24 \<and> length k = 32 \<and> Open nacl out bx n k = Some r"
  then have "secretbox_Open out bx n k = Some r"
    by (simp add: nacl_def)
  then show "Overhead \<le> length bx" and "length r = length out + (length bx - Overhead)"
    using secretbox_Open_length by blast+
qed

section \<open>Evaluating the construction\<close>

text \<open>
  Word operations are evaluated on their unsigned values, so that every intermediate result is
  a reduced numeral. The facts below compute the box of the one-byte message \<open>[0]\<close> under the
  all-zero key and nonce.
\<close>

lemma Sigma_bytes:
  "Sigma = [0x65, 0x78, 0x70, 0x61, 0x6e, 0x64, 0x20, 0x33, 0x32, 0x2d, 0x62, 0x79, 0x74, 0x65, 0x20, 0x6b]"
  unfolding Sigma_def by code_simp

lemma word_as_unat: "(w :: 'a::len word) = of_nat (unat w)"
  by (simp add: of_nat_unat)

lemma mix_unat:
  "mix n x a d =
     of_nat (unat x XOR
       (take_bit 32 (push_bit n (take_bit 32 (unat a + unat d))) OR
        drop_bit (32 - n) (take_bit 32 (unat a + unat d))))"
proof -
  have "unat (mix n x a d) =
      unat x XOR
       (take_bit 32 (push_bit n (take_bit 32 (unat a + unat d))) OR
        drop_bit (32 - n) (take_bit 32 (unat a + unat d)))"
    by (simp add: mix_def Let_def unsigned_xor_eq unsigned_or_eq unsigned_push_bit_eq
        unsigned_drop_bit_eq unat_word_ariths take_bit_eq_mod)
  then show ?thesis
    by (subst word_as_unat) simp
qed

lemma le32_unat:
  "le32 b i =
     of_nat (take_bit 32 (unat (b ! i)) OR
             take_bit 32 (push_bit 8 (take_bit 32 (unat (b ! (i + 1))))) OR
             take_bit 32 (push_bit 16 (take_bit 32 (unat (b ! (i + 2))))) OR
             take_bit 32 (push_bit 24 (take_bit 32 (unat (b ! (i + 3))))))"
proof -
  have "unat (le32 b i) = take_bit 32 (unat (b ! i)) OR
             take_bit 32 (push_bit 8 (take_bit 32 (unat (b ! (i + 1))))) OR
             take_bit 32 (push_bit 16 (take_bit 32 (unat (b ! (i + 2))))) OR
             take_bit 32 (push_bit 24 (take_bit 32 (unat (b ! (i + 3)))))"
    by (simp add: le32_def unsigned_or_eq unsigned_push_bit_eq unsigned_ucast_eq)
  then show ?thesis
    by (subst word_as_unat) simp
qed

lemma byte_of_nat: "(of_nat n :: byte) = of_nat (take_bit 8 n)"
  by (simp add: word_of_nat_eq_iff)

lemma bytes32_unat:
  "bytes32 w =
     [of_nat (take_bit 8 (unat w)), of_nat (take_bit 8 (drop_bit 8 (unat w))),
      of_nat (take_bit 8 (drop_bit 16 (unat w))), of_nat (take_bit 8 (drop_bit 24 (unat w)))]"
proof -
  have "bytes32 w =
     [of_nat (unat w), of_nat (drop_bit 8 (unat w)),
      of_nat (drop_bit 16 (unat w)), of_nat (drop_bit 24 (unat w))]"
    by (simp add: bytes32_def of_nat_unat flip: unat_drop_bit_eq)
  then show ?thesis
    by (simp flip: byte_of_nat)
qed

lemma list_update_Cons_numeral: "(x # xs)[numeral n := y] = x # xs[pred_numeral n := y]"
  by (simp add: numeral_eq_Suc)

lemma funpow_10: "(f ^^ 10) x = f (f (f (f (f (f (f (f (f (f x)))))))))"
  by (simp add: numeral_eq_Suc)

lemma qstep_Cons:
  "qstep n t a d (y # ys) = (y # ys)[t := mix n ((y # ys) ! t) ((y # ys) ! a) ((y # ys) ! d)]"
  by (simp add: qstep_def)

lemmas salsa_eval = Sigma_bytes salsa_input_def le32_unat double_round_def quarter_def qstep_Cons
  mix_unat list_update_Cons_numeral funpow_10 bytes32_unat

lemma HSalsa20_zero:
  "HSalsa20 (replicate 16 0) (replicate 32 0) Sigma =
     [53, 31, 134, 250, 163, 185, 136, 70, 138, 133, 1, 34, 182, 91, 10, 206,
      206, 156, 72, 38, 128, 106, 238, 230, 61, 233, 192, 218, 43, 215, 249, 30]"
  by (simp add: salsa_eval HSalsa20_def)

lemma upt_16: "[0..<16] = [0, 1, 2, 3, 4, 5, 6, 7, 8, 9, 10, 11, 12, 13, 14, 15]"
  by code_simp

lemma salsa_core_rounds:
  "salsa_core inp k c =
     concat (map (\<lambda>i. bytes32 (((double_round ^^ 10) (salsa_input inp k c)) ! i +
                               salsa_input inp k c ! i))
       [0, 1, 2, 3, 4, 5, 6, 7, 8, 9, 10, 11, 12, 13, 14, 15])"
  by (simp only: salsa_core_def Let_def upt_16)

lemma rounds_first:
  "(double_round ^^ 10)
     [1634760805, 4203093813, 1183365539, 570525066, 3456785334, 857760878, 0, 0, 0, 0,
      2036477234, 642292942, 3874384512, 3670075709, 519690027, 1797285236] =
   [2109077077, 3575385878, 491460801, 3534986716,
                        187443878, 435759403, 3133364832, 303431484,
                         4290461382, 751732222, 1670754745, 827086708,
                        4040071917, 3593093244, 1957567258, 302439299]"
  by (simp add: salsa_eval)

lemma input_first:
  "salsa_input (replicate 16 0)
     [53, 31, 134, 250, 163, 185, 136, 70, 138, 133, 1, 34, 182, 91, 10, 206,
      206, 156, 72, 38, 128, 106, 238, 230, 61, 233, 192, 218, 43, 215, 249, 30] Sigma =
   [1634760805, 4203093813, 1183365539, 570525066,
                         3456785334, 857760878, 0, 0, 0, 0, 2036477234,
                         642292942, 3874384512, 3670075709, 519690027,
                         1797285236]"
  by (simp add: salsa_eval)

lemma salsa_core_first:
  "salsa_core (replicate 16 0)
     [53, 31, 134, 250, 163, 185, 136, 70, 138, 133, 1, 34, 182, 91, 10, 206,
      206, 156, 72, 38, 128, 106, 238, 230, 61, 233, 192, 218, 43, 215, 249, 30] Sigma =
   [186, 110, 38, 223, 75, 46, 162, 207, 100, 210, 211, 99, 102, 35, 181, 244, 92, 134, 54, 217, 153, 141, 25, 77, 96, 90, 195, 186, 60, 255, 21, 18, 198, 62, 187, 255, 254, 133, 206, 44, 235, 222, 247, 220, 66, 244, 148, 87, 109, 5, 189, 215, 185, 41, 235, 176, 69, 242, 167, 147, 247, 64, 39, 125]"
  unfolding salsa_core_rounds input_first rounds_first
  by (simp add: bytes32_unat)

lemma xor_zero_stream: "map2 (XOR) (replicate n (0 :: byte)) xs = take n xs"
proof (induction n arbitrary: xs)
  case 0
  then show ?case by simp
next
  case (Suc n)
  then show ?case by (cases xs) simp_all
qed

lemma XORKeyStream_Nil: "XORKeyStream [] counter k = []"
  by (subst XORKeyStream.simps) simp

lemma XORKeyStream_block:
  "length inp = 64 \<Longrightarrow> XORKeyStream inp counter k = map2 (XOR) inp (salsa_core counter k Sigma)"
  by (subst XORKeyStream.simps) (simp add: XORKeyStream_Nil)

lemma firstBlock_zero:
  "secretbox_firstBlock (replicate 24 0) (replicate 32 0) =
   [186, 110, 38, 223, 75, 46, 162, 207, 100, 210, 211, 99, 102, 35, 181, 244, 92, 134, 54, 217, 153, 141, 25, 77, 96, 90, 195, 186, 60, 255, 21, 18, 198, 62, 187, 255, 254, 133, 206, 44, 235, 222, 247, 220, 66, 244, 148, 87, 109, 5, 189, 215, 185, 41, 235, 176, 69, 242, 167, 147, 247, 64, 39, 125]"
proof -
  have "drop 16 (replicate 24 0 :: byte list) @ replicate 8 0 = replicate 16 0"
    by (simp flip: replicate_add)
  then have su: "secretbox_setup (replicate 24 0) (replicate 32 0) =
      ([53, 31, 134, 250, 163, 185, 136, 70, 138, 133, 1, 34, 182, 91, 10, 206,
      206, 156, 72, 38, 128, 106, 238, 230, 61, 233, 192, 218, 43, 215, 249, 30], replicate 16 0)"
    using HSalsa20_zero by (simp add: secretbox_setup_def)
  show ?thesis
    unfolding secretbox_firstBlock_def su
    using salsa_core_first
    by (simp add: XORKeyStream_block xor_zero_stream)
qed

lemma poly1305_blocks_Nil: "poly1305_blocks h r [] = h"
  by (subst poly1305_blocks.simps) simp

lemma poly1305_blocks_Cons:
  "poly1305_blocks h r (x # xs) =
     poly1305_blocks (((h + (le_num (take 16 (x # xs)) + 2 ^ (8 * length (take 16 (x # xs))))) * r)
       mod (2 ^ 130 - 5)) r (drop 16 (x # xs))"
  by (subst poly1305_blocks.simps) (simp add: Let_def)

lemma num_le_16:
  "num_le 16 n = map (\<lambda>i. of_nat (take_bit 8 (n div 256 ^ i)))
     [0, 1, 2, 3, 4, 5, 6, 7, 8, 9, 10, 11, 12, 13, 14, 15]"
  unfolding num_le_def upt_16 by (subst byte_of_nat) (rule refl)

lemma poly1305_Sum_eval:
  "poly1305_Sum m k =
     num_le 16 ((poly1305_blocks 0
        (le_num (take 16 k) AND 0x0ffffffc0ffffffc0ffffffc0fffffff) m +
        le_num (take 16 (drop 16 k))) mod 2 ^ 128)"
  by (simp add: poly1305_Sum_def Let_def)

lemma ciphertext_zero:
  "secretbox_ciphertext [0] (replicate 24 0) (replicate 32 0) = [198]"
  by (simp add: secretbox_ciphertext_def firstBlock_zero XORKeyStream_Nil split: prod.split)

lemma tag_zero:
  "secretbox_tag [0] (replicate 24 0) (replicate 32 0) =
     [66, 228, 94, 183, 100, 161, 183, 6, 212, 119, 106, 132, 155, 194, 82, 107]"
  unfolding secretbox_tag_def ciphertext_zero firstBlock_zero
  by (simp add: poly1305_Sum_eval poly1305_blocks_Nil poly1305_blocks_Cons le_num_def num_le_16)

subsection \<open>The test vector of the package\<close>

text \<open>
  The package's own test (\<^verbatim>\<open>TestSecretBox\<close>) seals 64 bytes of value 3 under a key of 32 bytes
  of value 1 and a nonce of 24 bytes of value 2 and compares with a box computed by the C
  implementation of NaCl. The model computes that box: its first 16 bytes are the tag.
\<close>

lemma HSalsa20_rounds:
  "HSalsa20 inp k c =
     concat (map (\<lambda>i. bytes32 ((double_round ^^ 10) (salsa_input inp k c) ! i))
       [0, 5, 10, 15, 6, 7, 8, 9])"
  by (simp only: HSalsa20_def Let_def)

lemma tv_subkey_input:
  "salsa_input (replicate 16 2) (replicate 32 1) Sigma =
     [1634760805, 16843009, 16843009, 16843009, 16843009, 857760878, 33686018, 33686018,
      33686018, 33686018, 2036477234, 16843009, 16843009, 16843009, 16843009, 1797285236]"
  by (simp add: salsa_eval)

lemma tv_subkey_rounds:
  "(double_round ^^ 10)
     [1634760805, 16843009, 16843009, 16843009, 16843009, 857760878, 33686018, 33686018,
      33686018, 33686018, 2036477234, 16843009, 16843009, 16843009, 16843009, 1797285236] =
     [3314865444, 3401366801, 4194529961, 1677295519, 1106356529, 3742294226, 2360741527,
      516111235, 1588257033, 688905696, 1075310893, 155038291, 119089581, 440543050,
      2061283602, 2577328504]"
  by (simp add: salsa_eval)

lemma tv_subkey:
  "HSalsa20 (replicate 16 2) (replicate 32 1) Sigma =
     [36, 213, 148, 197, 210, 224, 14, 223, 45, 241, 23, 64, 120, 233, 158, 153, 151, 14,
      182, 140, 131, 59, 195, 30, 9, 225, 170, 94, 224, 221, 15, 41]"
  unfolding HSalsa20_rounds tv_subkey_input tv_subkey_rounds
  by (simp add: bytes32_unat)

lemma tv_block0_input:
  "salsa_input
     [2, 2, 2, 2, 2, 2, 2, 2, 0, 0, 0, 0, 0, 0, 0, 0]
     [36, 213, 148, 197, 210, 224, 14, 223, 45, 241, 23, 64, 120, 233, 158, 153, 151, 14,
      182, 140, 131, 59, 195, 30, 9, 225, 170, 94, 224, 221, 15, 41] Sigma =
     [1634760805, 3314865444, 3742294226, 1075310893, 2577328504, 857760878, 33686018,
      33686018, 0, 0, 2036477234, 2360741527, 516111235, 1588257033, 688905696,
      1797285236]"
  by (simp add: salsa_eval)

lemma tv_block0_rounds:
  "(double_round ^^ 10)
     [1634760805, 3314865444, 3742294226, 1075310893, 2577328504, 857760878, 33686018,
      33686018, 0, 0, 2036477234, 2360741527, 516111235, 1588257033, 688905696,
      1797285236] =
     [3074372094, 4098241065, 2748089240, 4230462811, 271243729, 2021263533, 678048558,
      839009725, 4259210749, 1305623166, 2236960814, 570898369, 1867979557, 212191212,
      2021766752, 146284235]"
  by (simp add: salsa_eval)

lemma tv_block0:
  "salsa_core
     [2, 2, 2, 2, 2, 2, 2, 2, 0, 0, 0, 0, 0, 0, 0, 0]
     [36, 213, 148, 197, 210, 224, 14, 223, 45, 241, 23, 64, 120, 233, 158, 153, 151, 14,
      182, 140, 131, 59, 195, 30, 9, 225, 170, 94, 224, 221, 15, 41] Sigma =
     [99, 170, 175, 24, 77, 7, 219, 185, 106, 100, 219, 130, 136, 174, 63, 60, 73, 195,
      201, 169, 27, 109, 154, 171, 48, 53, 108, 42, 191, 71, 4, 52, 253, 101, 222, 253,
      126, 58, 210, 77, 96, 125, 183, 254, 88, 70, 189, 174, 168, 86, 26, 142, 245, 168,
      80, 107, 64, 148, 145, 161, 63, 132, 216, 115]"
  unfolding salsa_core_rounds tv_block0_input tv_block0_rounds
  by (simp add: bytes32_unat)

lemma tv_block1_input:
  "salsa_input
     [2, 2, 2, 2, 2, 2, 2, 2, 1, 0, 0, 0, 0, 0, 0, 0]
     [36, 213, 148, 197, 210, 224, 14, 223, 45, 241, 23, 64, 120, 233, 158, 153, 151, 14,
      182, 140, 131, 59, 195, 30, 9, 225, 170, 94, 224, 221, 15, 41] Sigma =
     [1634760805, 3314865444, 3742294226, 1075310893, 2577328504, 857760878, 33686018,
      33686018, 1, 0, 2036477234, 2360741527, 516111235, 1588257033, 688905696,
      1797285236]"
  by (simp add: salsa_eval)

lemma tv_block1_rounds:
  "(double_round ^^ 10)
     [1634760805, 3314865444, 3742294226, 1075310893, 2577328504, 857760878, 33686018,
      33686018, 1, 0, 2036477234, 2360741527, 516111235, 1588257033, 688905696,
      1797285236] =
     [212221258, 3020036002, 2521983985, 2071491231, 1507719888, 178273049, 1277473333,
      2892270167, 2975887546, 1913401432, 2852820033, 2981752765, 4207558012, 1389613761,
      2101567339, 3029757379]"
  by (simp add: salsa_eval)

lemma tv_block1:
  "salsa_core
     [2, 2, 2, 2, 2, 2, 2, 2, 1, 0, 0, 0, 0, 0, 0, 0]
     [36, 213, 148, 197, 210, 224, 14, 223, 45, 241, 23, 64, 120, 233, 158, 153, 151, 14,
      182, 140, 131, 59, 195, 30, 9, 225, 170, 94, 224, 221, 15, 41] Sigma =
     [175, 181, 22, 110, 198, 236, 150, 121, 195, 76, 97, 117, 204, 99, 144, 187, 72, 228,
      124, 243, 135, 159, 192, 61, 55, 180, 38, 78, 89, 140, 102, 174, 187, 112, 96, 177,
      88, 48, 12, 114, 115, 193, 108, 35, 84, 254, 111, 62, 255, 120, 141, 25, 202, 179,
      126, 177, 75, 61, 83, 166, 55, 211, 182, 31]"
  unfolding salsa_core_rounds tv_block1_input tv_block1_rounds
  by (simp add: bytes32_unat)

lemma XORKeyStream_tail:
  "0 < length inp \<Longrightarrow> length inp < 64 \<Longrightarrow>
   XORKeyStream inp counter k = map2 (XOR) inp (salsa_core counter k Sigma)"
  by (subst XORKeyStream.simps) simp

lemma tv_setup:
  "secretbox_setup (replicate 24 2) (replicate 32 1) =
     ([36, 213, 148, 197, 210, 224, 14, 223, 45, 241, 23, 64, 120, 233, 158, 153, 151, 14,
      182, 140, 131, 59, 195, 30, 9, 225, 170, 94, 224, 221, 15, 41],
      [2, 2, 2, 2, 2, 2, 2, 2, 0, 0, 0, 0, 0, 0, 0, 0])"
proof -
  have "drop 16 (replicate 24 2 :: byte list) @ replicate 8 0 =
      [2, 2, 2, 2, 2, 2, 2, 2, 0, 0, 0, 0, 0, 0, 0, 0]"
    by code_simp
  with tv_subkey show ?thesis
    by (simp only: secretbox_setup_def Let_def take_replicate) simp
qed

lemma tv_firstBlock:
  "secretbox_firstBlock (replicate 24 2) (replicate 32 1) =
     [99, 170, 175, 24, 77, 7, 219, 185, 106, 100, 219, 130, 136, 174, 63, 60, 73, 195,
      201, 169, 27, 109, 154, 171, 48, 53, 108, 42, 191, 71, 4, 52, 253, 101, 222, 253,
      126, 58, 210, 77, 96, 125, 183, 254, 88, 70, 189, 174, 168, 86, 26, 142, 245, 168,
      80, 107, 64, 148, 145, 161, 63, 132, 216, 115]"
  unfolding secretbox_firstBlock_def tv_setup
  using tv_block0 by (simp add: XORKeyStream_block xor_zero_stream)

lemma tv_ciphertext:
  "secretbox_ciphertext (replicate 64 3) (replicate 24 2) (replicate 32 1) =
     [254, 102, 221, 254, 125, 57, 209, 78, 99, 126, 180, 253, 91, 69, 190, 173, 171, 85,
      25, 141, 246, 171, 83, 104, 67, 151, 146, 162, 60, 135, 219, 112, 172, 182, 21, 109,
      197, 239, 149, 122, 192, 79, 98, 118, 207, 96, 147, 184, 75, 231, 127, 240, 132, 156,
      195, 62, 52, 183, 37, 77, 90, 143, 101, 173]"
proof -
  have three: "replicate 32 (3 :: byte) =
      [3, 3, 3, 3, 3, 3, 3, 3, 3, 3, 3, 3, 3, 3, 3, 3, 3, 3, 3, 3, 3, 3, 3, 3, 3, 3, 3, 3, 3, 3,
       3, 3]"
    by code_simp
  show ?thesis
    unfolding secretbox_ciphertext_def tv_setup tv_firstBlock
    using tv_block1 by (simp add: XORKeyStream_tail Let_def three)
qed

lemma tv_tag:
  "secretbox_tag (replicate 64 3) (replicate 24 2) (replicate 32 1) =
     [132, 66, 188, 49, 63, 70, 38, 241, 53, 158, 59, 80, 18, 43, 108, 230]"
  unfolding secretbox_tag_def tv_ciphertext tv_firstBlock
  by (simp add: poly1305_Sum_eval poly1305_blocks_Nil poly1305_blocks_Cons le_num_def num_le_16)

lemma secretbox_test_vector:
  "secretbox_Seal [] (replicate 64 3) (replicate 24 2) (replicate 32 1) =
     [132, 66, 188, 49, 63, 70, 38, 241, 53, 158, 59, 80, 18, 43, 108, 230, 254, 102, 221,
      254, 125, 57, 209, 78, 99, 126, 180, 253, 91, 69, 190, 173, 171, 85, 25, 141, 246,
      171, 83, 104, 67, 151, 146, 162, 60, 135, 219, 112, 172, 182, 21, 109, 197, 239, 149,
      122, 192, 79, 98, 118, 207, 96, 147, 184, 75, 231, 127, 240, 132, 156, 195, 62, 52,
      183, 37, 77, 90, 143, 101, 173]"
  by (simp add: secretbox_Seal_layout tv_tag tv_ciphertext)

section \<open>The envelope\<close>

subsection \<open>Consequences of the contract\<close>

lemma contract_Seal:
  assumes "secretbox_contract sb" and "length n = 24" and "length k = 32"
  shows "Seal sb out msg n k = out @ Seal sb [] msg n k"
    and "length (Seal sb [] msg n k) = length msg + 16"
    and "Open sb out' (Seal sb [] msg n k) n k = Some (out' @ msg)"
  using assms unfolding secretbox_contract_def Overhead_def by blast+

lemma contract_Open:
  assumes "secretbox_contract sb" and "length n = 24" and "length k = 32"
    and "Open sb out bx n k = Some r"
  shows "16 \<le> length bx" and "length r = length out + (length bx - 16)"
  using assms unfolding secretbox_contract_def Overhead_def by blast+

lemma box_seal_enabled:
  "enable b \<Longrightarrow> box_seal sb b dst (Inr nonce) msg = Inr (Seal sb nonce msg nonce (key b))"
  by (simp add: box_seal_def)

lemma box_seal_datagram:
  assumes "secretbox_contract sb" and "enable b" and "length (key b) = 32" and "length nonce = 24"
  shows "box_seal sb b dst (Inr nonce) msg = Inr (nonce @ Seal sb [] msg nonce (key b))"
  using assms contract_Seal(1) [of sb nonce "key b" nonce msg] by (simp add: box_seal_enabled)

lemma box_open_datagram:
  assumes "enable b" and "length nonce = 24"
  shows "box_open sb b dst (nonce @ bx) = Open sb [] bx nonce (key b)"
  using assms by (simp add: box_open_def)

lemma box_open_sealed:
  assumes "secretbox_contract sb" and "enable b" and "length (key b) = 32" and "length nonce = 24"
  shows "box_open sb b dst (nonce @ Seal sb [] msg nonce (key b)) = Some msg"
  using assms contract_Seal(3) [of sb nonce "key b" "[]" msg]
  by (simp add: box_open_datagram)

lemma box_seal_length:
  assumes "secretbox_contract sb" and "enable b" and "length (key b) = 32" and "length nonce = 24"
  shows "\<exists>d. box_seal sb b dst (Inr nonce) msg = Inr d \<and> length d = length msg + 40"
  using assms contract_Seal(2) [of sb nonce "key b" msg]
  by (simp add: box_seal_datagram)

subsection \<open>Claims about seal and open\<close>

text \<open>
  C1: with encryption enabled, for every 32-byte key, every plaintext \<open>p\<close> and every 24-byte
  nonce that \<open>seal\<close> draws, \<open>seal\<close> returns a datagram and \<open>open\<close> of that datagram under the
  same key returns exactly \<open>p\<close>; for any secretbox primitive that meets its contract.
\<close>

theorem open_seal_roundtrip:
  assumes "secretbox_contract sb" and "enable b" and "length (key b) = 32"
    and "length nonce = 24"
  shows "\<exists>d. box_seal sb b dst (Inr nonce) p = Inr d \<and> box_open sb b dst' d = Some p"
  using assms by (simp add: box_seal_datagram box_open_sealed)

theorem open_seal_roundtrip_witness:
  "\<exists>d. box_seal nacl \<lparr>key = replicate 32 0, enable = True\<rparr> [] (Inr (replicate 24 7)) [1, 2, 3] = Inr d \<and>
       box_open nacl \<lparr>key = replicate 32 0, enable = True\<rparr> [] d = Some [1, 2, 3]"
  using open_seal_roundtrip [OF nacl_contract, of "\<lparr>key = replicate 32 0, enable = True\<rparr>"
      "replicate 24 7" "[]" "[1, 2, 3]" "[]"]
  by simp

text \<open>
  C2: with encryption enabled, \<open>open\<close> rejects every datagram shorter than 24 bytes and every
  datagram of 39 bytes or fewer; the 40-byte datagram made of a nonce and the box of the empty
  message is accepted and yields the empty plaintext.
\<close>

theorem open_rejects_short_datagrams:
  assumes "secretbox_contract sb" and "enable b" and "length (key b) = 32"
  shows "(length d1 < 24 \<longrightarrow> box_open sb b dst d1 = None) \<and>
         (length d2 \<le> 39 \<longrightarrow> box_open sb b dst d2 = None) \<and>
         (length nonce = 24 \<longrightarrow>
            length (nonce @ Seal sb [] [] nonce (key b)) = 40 \<and>
            box_open sb b dst (nonce @ Seal sb [] [] nonce (key b)) = Some [])"
proof (intro conjI impI)
  assume "length d1 < 24"
  then show "box_open sb b dst d1 = None"
    using assms(2) by (simp add: box_open_def)
next
  assume short: "length d2 \<le> 39"
  show "box_open sb b dst d2 = None"
  proof (cases "length d2 < 24")
    case True
    then show ?thesis using assms(2) by (simp add: box_open_def)
  next
    case False
    then have n: "length (take 24 d2) = 24" by simp
    have bx: "length (drop 24 d2) < 16" using short by simp
    have "Open sb [] (drop 24 d2) (take 24 d2) (key b) = None"
    proof (cases "Open sb [] (drop 24 d2) (take 24 d2) (key b)")
      case None
      then show ?thesis .
    next
      case (Some r)
      from contract_Open(1) [OF assms(1) n assms(3) Some] bx show ?thesis by simp
    qed
    then show ?thesis using assms(2) False by (simp add: box_open_def)
  qed
next
  assume n: "length nonce = 24"
  show "length (nonce @ Seal sb [] [] nonce (key b)) = 40"
    using contract_Seal(2) [OF assms(1) n assms(3), of "[]"] n by simp
  show "box_open sb b dst (nonce @ Seal sb [] [] nonce (key b)) = Some []"
    using assms n by (rule box_open_sealed)
qed

theorem open_rejects_short_datagrams_witness:
  "box_open nacl \<lparr>key = replicate 32 0, enable = True\<rparr> [] (replicate 10 0) = None \<and>
   box_open nacl \<lparr>key = replicate 32 0, enable = True\<rparr> [] (replicate 39 0) = None \<and>
   length (replicate 24 0 @ Seal nacl [] [] (replicate 24 0) (replicate 32 0)) = 40 \<and>
   box_open nacl \<lparr>key = replicate 32 0, enable = True\<rparr> []
     (replicate 24 0 @ Seal nacl [] [] (replicate 24 0) (replicate 32 0)) = Some []"
  using open_rejects_short_datagrams [OF nacl_contract,
      of "\<lparr>key = replicate 32 0, enable = True\<rparr>" "replicate 10 0" "[]" "replicate 39 0"
         "replicate 24 0"]
  by simp

text \<open>
  C3, with the order of tag and ciphertext as the code has it: with encryption enabled, for
  every plaintext, the empty one included, \<open>seal\<close> returns the 24-byte nonce, then the 16-byte
  Poly1305 tag, then the ciphertext, which is as long as the plaintext; the datagram has
  exactly \<open>length msg + 40\<close> bytes and so never fewer than 40.
\<close>

theorem seal_datagram_layout:
  assumes "enable b" and "length nonce = 24"
  shows "box_seal nacl b dst (Inr nonce) msg =
           Inr (nonce @ secretbox_tag msg nonce (key b) @ secretbox_ciphertext msg nonce (key b)) \<and>
         length (secretbox_tag msg nonce (key b)) = 16 \<and>
         length (secretbox_ciphertext msg nonce (key b)) = length msg \<and>
         (\<exists>d. box_seal nacl b dst (Inr nonce) msg = Inr d \<and> length d = length msg + 40 \<and>
              40 \<le> length d)"
  using assms
  by (simp add: box_seal_enabled nacl_def secretbox_Seal_layout length_secretbox_tag
      length_secretbox_ciphertext)

theorem seal_datagram_layout_witness:
  "box_seal nacl \<lparr>key = replicate 32 0, enable = True\<rparr> [] (Inr (replicate 24 0)) [] =
     Inr (replicate 24 0 @ secretbox_tag [] (replicate 24 0) (replicate 32 0) @
          secretbox_ciphertext [] (replicate 24 0) (replicate 32 0)) \<and>
   length (secretbox_tag [] (replicate 24 0) (replicate 32 0)) = 16 \<and>
   length (secretbox_ciphertext [] (replicate 24 0) (replicate 32 0)) = length ([] :: byte list) \<and>
   (\<exists>d. box_seal nacl \<lparr>key = replicate 32 0, enable = True\<rparr> [] (Inr (replicate 24 0)) [] = Inr d \<and>
        length d = length ([] :: byte list) + 40 \<and> 40 \<le> length d)"
  using seal_datagram_layout [of "\<lparr>key = replicate 32 0, enable = True\<rparr>" "replicate 24 0"
      "[]" "[]"]
  by simp

text \<open>
  The layout with the tag after the ciphertext does not hold: under the all-zero key and
  nonce the one-byte message \<open>[0]\<close> has the ciphertext \<open>[198]\<close>, and the datagram carries the
  tag in bytes 24 to 39 and the ciphertext byte last.
\<close>

theorem seal_tag_precedes_ciphertext:
  "box_seal nacl \<lparr>key = replicate 32 0, enable = True\<rparr> [] (Inr (replicate 24 0)) [0] =
     Inr (replicate 24 0 @
          [66, 228, 94, 183, 100, 161, 183, 6, 212, 119, 106, 132, 155, 194, 82, 107] @ [198]) \<and>
   secretbox_ciphertext [0] (replicate 24 0) (replicate 32 0) = [198] \<and>
   secretbox_tag [0] (replicate 24 0) (replicate 32 0) =
     [66, 228, 94, 183, 100, 161, 183, 6, 212, 119, 106, 132, 155, 194, 82, 107] \<and>
   box_seal nacl \<lparr>key = replicate 32 0, enable = True\<rparr> [] (Inr (replicate 24 0)) [0] \<noteq>
     Inr (replicate 24 0 @ secretbox_ciphertext [0] (replicate 24 0) (replicate 32 0) @
          secretbox_tag [0] (replicate 24 0) (replicate 32 0))"
  by (simp add: box_seal_enabled nacl_def secretbox_Seal_layout ciphertext_zero tag_zero)

text \<open>
  C8: with encryption disabled, \<open>seal\<close> returns the plaintext unchanged whatever the random
  source does, and \<open>open\<close> returns the datagram unchanged, whatever its length. The callers
  pass an empty destination; in general both append their input to the destination.
\<close>

theorem disabled_is_identity:
  assumes "\<not> enable b"
  shows "box_seal sb b [] rnd msg = Inr msg \<and> box_open sb b [] pkt = Some pkt \<and>
         box_seal sb b dst rnd msg = Inr (dst @ msg) \<and> box_open sb b dst pkt = Some (dst @ pkt)"
  using assms by (simp add: box_seal_def box_open_def)

theorem disabled_is_identity_witness:
  "box_seal nacl \<lparr>key = replicate 32 0, enable = False\<rparr> [] (Inl (Error ''EOF'')) [1, 2, 3] = Inr [1, 2, 3] \<and>
   box_open nacl \<lparr>key = replicate 32 0, enable = False\<rparr> [] [] = Some [] \<and>
   box_seal nacl \<lparr>key = replicate 32 0, enable = False\<rparr> [9] (Inl (Error ''EOF'')) [1, 2, 3] = Inr ([9] @ [1, 2, 3]) \<and>
   box_open nacl \<lparr>key = replicate 32 0, enable = False\<rparr> [9] [] = Some ([9] @ [])"
  using disabled_is_identity [of "\<lparr>key = replicate 32 0, enable = False\<rparr>" nacl
      "Inl (Error ''EOF'')" "[1, 2, 3]" "[]" "[9]"]
  by simp

text \<open>
  C10: with encryption enabled, whenever \<open>open\<close> accepts a datagram \<open>d\<close>, the plaintext has
  length \<open>length d - 40\<close>, and \<open>d\<close> has at least 40 bytes.
\<close>

theorem open_plaintext_length:
  assumes "secretbox_contract sb" and "enable b" and "length (key b) = 32"
    and "box_open sb b dst d = Some p"
  shows "length p = length d - 40 \<and> 40 \<le> length d"
proof -
  from assms(2,4) have long: "24 \<le> length d"
    by (auto simp: box_open_def split: if_splits)
  with assms(2,4) have op: "Open sb [] (drop 24 d) (take 24 d) (key b) = Some p"
    by (simp add: box_open_def)
  from long have n: "length (take 24 d) = 24" by simp
  from contract_Open [OF assms(1) n assms(3) op] long show ?thesis by simp
qed

theorem open_plaintext_length_witness:
  "box_open nacl \<lparr>key = replicate 32 0, enable = True\<rparr> []
     (replicate 24 7 @ Seal nacl [] [1, 2, 3] (replicate 24 7) (replicate 32 0)) = Some [1, 2, 3] \<and>
   length [1, 2, 3 :: byte] =
     length (replicate 24 7 @ Seal nacl [] [1, 2, 3] (replicate 24 7) (replicate 32 0)) - 40 \<and>
   40 \<le> length (replicate 24 (7 :: byte) @ Seal nacl [] [1, 2, 3] (replicate 24 7) (replicate 32 0))"
proof -
  have op: "box_open nacl \<lparr>key = replicate 32 0, enable = True\<rparr> []
     (replicate 24 7 @ Seal nacl [] [1, 2, 3] (replicate 24 7) (replicate 32 0)) = Some [1, 2, 3]"
    using box_open_sealed [OF nacl_contract, of "\<lparr>key = replicate 32 0, enable = True\<rparr>"
        "replicate 24 7" "[]" "[1, 2, 3]"]
    by simp
  from open_plaintext_length [OF nacl_contract _ _ op] op show ?thesis
    by simp
qed

section \<open>The datapath loops\<close>

lemma raddr_learn: "raddr (learn sender s) = (if raddr s = None then Some sender else raddr s)"
  by (simp add: learn_def)

lemma learn_flags:
  "outbound_running (learn sender s) = outbound_running s"
  "inbound_running (learn sender s) = inbound_running s"
  "main_running (learn sender s) = main_running s"
  by (simp_all add: learn_def)

lemma raddr_outbound: "raddr (outbound sb b rd rnd wr s) = raddr s"
  by (simp add: outbound_def split: sum.split option.split)

lemma raddr_keepalive: "raddr (keepalive sb b r rnd s) = raddr s"
  by (simp add: keepalive_def split: sum.split option.split)

lemma raddr_inbound:
  "raddr (inbound sb b rd wr s) =
     (case rd of Inl err \<Rightarrow> raddr s
      | Inr (pkt, sender) \<Rightarrow> if raddr s = None then Some sender else raddr s)"
  by (auto simp: inbound_def Let_def raddr_learn split: sum.split option.split prod.split)

text \<open>
  Any step function that leaves a set peer address alone keeps it through a run and changes
  the cell at most once.
\<close>

lemma run_keeps_peer:
  assumes keep: "\<And>s ev a. raddr s = Some a \<Longrightarrow> raddr (step s ev) = Some a"
    and "raddr s = Some a"
  shows "raddr (run step s evs) = Some a \<and> raddr_changes step s evs = 0"
  using assms(2)
proof (induction evs arbitrary: s)
  case Nil
  then show ?case by simp
next
  case (Cons ev evs)
  from keep [OF Cons.prems] have "raddr (step s ev) = Some a" .
  with Cons.IH [of "step s ev"] Cons.prems show ?case by simp
qed

lemma run_changes_once:
  assumes keep: "\<And>s ev a. raddr s = Some a \<Longrightarrow> raddr (step s ev) = Some a"
  shows "raddr_changes step s evs \<le> 1"
proof (induction evs arbitrary: s)
  case Nil
  then show ?case by simp
next
  case (Cons ev evs)
  show ?case
  proof (cases "raddr (step s ev) = raddr s")
    case True
    with Cons.IH [of "step s ev"] show ?thesis by simp
  next
    case False
    have "raddr (step s ev) \<noteq> None"
    proof
      assume none: "raddr (step s ev) = None"
      with False obtain a where "raddr s = Some a" by (cases "raddr s") auto
      from keep [OF this] none show False by simp
    qed
    then obtain a where "raddr (step s ev) = Some a" by auto
    from run_keeps_peer [of step, OF keep this] False show ?thesis by simp
  qed
qed

lemma keep_mini_overlay: "raddr s = Some a \<Longrightarrow> raddr (step_mini_overlay sb b s ev) = Some a"
  by (cases ev)
     (auto simp: step_mini_overlay_def raddr_outbound raddr_inbound split: sum.split)

lemma keep_keepalive: "raddr s = Some a \<Longrightarrow> raddr (step_keepalive sb b s ev) = Some a"
  by (cases ev)
     (auto simp: step_keepalive_def raddr_outbound raddr_inbound raddr_keepalive
        split: sum.split)

lemma sent_append: "sent (xs @ ys) = sent xs @ sent ys"
  by (induction xs rule: sent.induct) simp_all

subsection \<open>Claims about the peer address and the loops\<close>

text \<open>
  C4, as the code has it: while \<^verbatim>\<open>main\<close> and the inbound loop run and the peer address is
  unset, a step sets it exactly when the event delivers a datagram from the UDP socket, to
  that datagram's sender, whatever \<open>open\<close> then says of the datagram; in every other case a
  step leaves the peer address as it is. In both variants.
\<close>

theorem peer_learned_from_first_datagram:
  "raddr (step_mini_overlay sb b s ev) =
     (if main_running s \<and> inbound_running s \<and> raddr s = None then datagram_from ev
      else raddr s) \<and>
   raddr (step_keepalive sb b s ev) =
     (if main_running s \<and> inbound_running s \<and> raddr s = None then datagram_from ev
      else raddr s)"
proof (cases ev)
  case (TunRead rd rnd wr)
  then show ?thesis
    by (simp add: step_mini_overlay_def step_keepalive_def raddr_outbound)
next
  case (UdpRead rd wr)
  show ?thesis
  proof (cases rd)
    case (Inl err)
    with UdpRead show ?thesis
      by (simp add: step_mini_overlay_def step_keepalive_def raddr_inbound)
  next
    case (Inr dg)
    obtain pkt sender where "dg = (pkt, sender)"
      by (cases dg)
    with Inr UdpRead show ?thesis
      by (simp add: step_mini_overlay_def step_keepalive_def raddr_inbound)
  qed
next
  case (Tick r rnd)
  then show ?thesis
    by (simp add: step_mini_overlay_def step_keepalive_def raddr_keepalive)
next
  case Signal
  then show ?thesis
    by (simp add: step_mini_overlay_def step_keepalive_def)
qed

text \<open>
  A datagram that \<open>open\<close> rejects does set the peer address: with encryption enabled and no
  peer configured, a 10-byte datagram is rejected, and its sender is the peer afterwards.
\<close>

theorem peer_set_by_rejected_datagram:
  "box_open nacl \<lparr>key = replicate 32 0, enable = True\<rparr> [] (replicate 10 0) = None \<and>
   raddr (initial None) = None \<and>
   raddr (step_mini_overlay nacl \<lparr>key = replicate 32 0, enable = True\<rparr> (initial None)
           (UdpRead (Inr (replicate 10 0, UDPAddr [203, 0, 113, 9] 40000 [])) None)) =
     Some (UDPAddr [203, 0, 113, 9] 40000 []) \<and>
   trace (step_mini_overlay nacl \<lparr>key = replicate 32 0, enable = True\<rparr> (initial None)
           (UdpRead (Inr (replicate 10 0, UDPAddr [203, 0, 113, 9] 40000 [])) None)) =
     [PeerLearned (UDPAddr [203, 0, 113, 9] 40000 [])]"
  by (simp add: box_open_def step_mini_overlay_def inbound_def learn_def initial_def)

text \<open>
  C5: along any run, from any state, the value of the peer address changes at most once; once
  it is set to an address, by configuration or by learning, it is that address after every
  further sequence of events, whatever datagrams arrive and from whom. In both variants.
\<close>

theorem peer_set_at_most_once:
  "raddr_changes (step_mini_overlay sb b) s evs \<le> 1 \<and>
   raddr_changes (step_keepalive sb b) s evs \<le> 1 \<and>
   (raddr s = Some a \<longrightarrow>
      raddr (run (step_mini_overlay sb b) s evs) = Some a \<and>
      raddr (run (step_keepalive sb b) s evs) = Some a \<and>
      raddr_changes (step_mini_overlay sb b) s evs = 0 \<and>
      raddr_changes (step_keepalive sb b) s evs = 0)"
  using run_changes_once [of "step_mini_overlay sb b", OF keep_mini_overlay]
    run_changes_once [of "step_keepalive sb b", OF keep_keepalive]
    run_keeps_peer [of "step_mini_overlay sb b", OF keep_mini_overlay]
    run_keeps_peer [of "step_keepalive sb b", OF keep_keepalive]
  by blast

theorem peer_set_at_most_once_witness:
  "raddr_changes (step_mini_overlay nacl \<lparr>key = replicate 32 0, enable = False\<rparr>)
     (initial (Some (UDPAddr [192, 0, 2, 1] 51820 [])))
     [UdpRead (Inr ([1, 2, 3], UDPAddr [203, 0, 113, 9] 40000 [])) None, Tick 7 (Inl (Error ''EOF''))] \<le> 1 \<and>
   raddr_changes (step_keepalive nacl \<lparr>key = replicate 32 0, enable = False\<rparr>)
     (initial (Some (UDPAddr [192, 0, 2, 1] 51820 [])))
     [UdpRead (Inr ([1, 2, 3], UDPAddr [203, 0, 113, 9] 40000 [])) None, Tick 7 (Inl (Error ''EOF''))] \<le> 1 \<and>
   raddr (run (step_mini_overlay nacl \<lparr>key = replicate 32 0, enable = False\<rparr>)
     (initial (Some (UDPAddr [192, 0, 2, 1] 51820 [])))
     [UdpRead (Inr ([1, 2, 3], UDPAddr [203, 0, 113, 9] 40000 [])) None, Tick 7 (Inl (Error ''EOF''))]) =
     Some (UDPAddr [192, 0, 2, 1] 51820 []) \<and>
   raddr (run (step_keepalive nacl \<lparr>key = replicate 32 0, enable = False\<rparr>)
     (initial (Some (UDPAddr [192, 0, 2, 1] 51820 [])))
     [UdpRead (Inr ([1, 2, 3], UDPAddr [203, 0, 113, 9] 40000 [])) None, Tick 7 (Inl (Error ''EOF''))]) =
     Some (UDPAddr [192, 0, 2, 1] 51820 [])"
proof -
  have set: "raddr (initial (Some (UDPAddr [192, 0, 2, 1] 51820 []))) =
      Some (UDPAddr [192, 0, 2, 1] 51820 [])"
    by (simp add: initial_def)
  from peer_set_at_most_once [of nacl "\<lparr>key = replicate 32 0, enable = False\<rparr>"
      "initial (Some (UDPAddr [192, 0, 2, 1] 51820 []))"
      "[UdpRead (Inr ([1, 2, 3], UDPAddr [203, 0, 113, 9] 40000 [])) None, Tick 7 (Inl (Error ''EOF''))]"
      "UDPAddr [192, 0, 2, 1] 51820 []"] set
  show ?thesis by blast
qed

text \<open>
  C6: in an iteration of the outbound loop that reads a packet, the packet is sealed with an
  empty destination; when sealing gives a datagram and the peer address is unset, the state
  is unchanged, so nothing is sent; when the peer address is set, exactly that datagram is
  sent to it. When sealing fails, the error is logged and nothing is sent. In both variants.
\<close>

theorem outbound_sends_sealed_to_peer:
  assumes "main_running s" and "outbound_running s"
  shows "(box_seal sb b [] rnd pkt = Inr sealed \<and> raddr s = None \<longrightarrow>
            step_mini_overlay sb b s (TunRead (Inr pkt) rnd wr) = s \<and>
            step_keepalive sb b s (TunRead (Inr pkt) rnd wr) = s) \<and>
         (box_seal sb b [] rnd pkt = Inr sealed \<and> raddr s = Some peer \<longrightarrow>
            sent (trace (step_mini_overlay sb b s (TunRead (Inr pkt) rnd wr))) =
              sent (trace s) @ [(sealed, peer)] \<and>
            sent (trace (step_keepalive sb b s (TunRead (Inr pkt) rnd wr))) =
              sent (trace s) @ [(sealed, peer)]) \<and>
         (box_seal sb b [] rnd pkt = Inl err \<longrightarrow>
            step_mini_overlay sb b s (TunRead (Inr pkt) rnd wr) =
              s\<lparr>trace := trace s @ [LogPrintln ''seal:'' err]\<rparr> \<and>
            step_keepalive sb b s (TunRead (Inr pkt) rnd wr) =
              s\<lparr>trace := trace s @ [LogPrintln ''seal:'' err]\<rparr>)"
  using assms
  by (cases wr)
     (simp_all add: step_mini_overlay_def step_keepalive_def outbound_def sent_append)

theorem outbound_sends_sealed_to_peer_witness:
  "step_mini_overlay nacl \<lparr>key = replicate 32 0, enable = True\<rparr> (initial None)
     (TunRead (Inr [69, 0, 0, 28]) (Inr (replicate 24 7)) None) = initial None \<and>
   step_keepalive nacl \<lparr>key = replicate 32 0, enable = True\<rparr> (initial None)
     (TunRead (Inr [69, 0, 0, 28]) (Inr (replicate 24 7)) None) = initial None \<and>
   sent (trace (step_mini_overlay nacl \<lparr>key = replicate 32 0, enable = True\<rparr>
     (initial (Some (UDPAddr [192, 0, 2, 1] 51820 [])))
     (TunRead (Inr [69, 0, 0, 28]) (Inr (replicate 24 7)) None))) =
     [(Seal nacl (replicate 24 7) [69, 0, 0, 28] (replicate 24 7) (replicate 32 0),
       UDPAddr [192, 0, 2, 1] 51820 [])] \<and>
   sent (trace (step_keepalive nacl \<lparr>key = replicate 32 0, enable = True\<rparr>
     (initial (Some (UDPAddr [192, 0, 2, 1] 51820 [])))
     (TunRead (Inr [69, 0, 0, 28]) (Inr (replicate 24 7)) None))) =
     [(Seal nacl (replicate 24 7) [69, 0, 0, 28] (replicate 24 7) (replicate 32 0),
       UDPAddr [192, 0, 2, 1] 51820 [])] \<and>
   step_mini_overlay nacl \<lparr>key = replicate 32 0, enable = True\<rparr>
     (initial (Some (UDPAddr [192, 0, 2, 1] 51820 [])))
     (TunRead (Inr [69, 0, 0, 28]) (Inl (Error ''EOF'')) None) =
     (initial (Some (UDPAddr [192, 0, 2, 1] 51820 [])))
       \<lparr>trace := trace (initial (Some (UDPAddr [192, 0, 2, 1] 51820 []))) @
          [LogPrintln ''seal:'' (Error ''EOF'')]\<rparr>"
proof -
  have sl: "box_seal nacl \<lparr>key = replicate 32 0, enable = True\<rparr> [] (Inr (replicate 24 7))
      [69, 0, 0, 28] =
      Inr (Seal nacl (replicate 24 7) [69, 0, 0, 28] (replicate 24 7) (replicate 32 0))"
    by (simp add: box_seal_enabled)
  have fl: "box_seal nacl \<lparr>key = replicate 32 0, enable = True\<rparr> [] (Inl (Error ''EOF''))
      [69, 0, 0, 28] = Inl (Error ''EOF'')"
    by (simp add: box_seal_def)
  have unset: "main_running (initial None)" "outbound_running (initial None)"
    "raddr (initial None) = None" "trace (initial None) = []"
    by (simp_all add: initial_def)
  have set: "main_running (initial (Some (UDPAddr [192, 0, 2, 1] 51820 [])))"
    "outbound_running (initial (Some (UDPAddr [192, 0, 2, 1] 51820 [])))"
    "raddr (initial (Some (UDPAddr [192, 0, 2, 1] 51820 []))) =
       Some (UDPAddr [192, 0, 2, 1] 51820 [])"
    "trace (initial (Some (UDPAddr [192, 0, 2, 1] 51820 []))) = []"
    by (simp_all add: initial_def)
  from outbound_sends_sealed_to_peer [OF unset(1,2), where wr = None and sb = nacl
      and b = "\<lparr>key = replicate 32 0, enable = True\<rparr>" and rnd = "Inr (replicate 24 7)"
      and pkt = "[69, 0, 0, 28]"
      and sealed = "Seal nacl (replicate 24 7) [69, 0, 0, 28] (replicate 24 7) (replicate 32 0)"]
    sl unset(3)
  have a: "step_mini_overlay nacl \<lparr>key = replicate 32 0, enable = True\<rparr> (initial None)
       (TunRead (Inr [69, 0, 0, 28]) (Inr (replicate 24 7)) None) = initial None \<and>
     step_keepalive nacl \<lparr>key = replicate 32 0, enable = True\<rparr> (initial None)
       (TunRead (Inr [69, 0, 0, 28]) (Inr (replicate 24 7)) None) = initial None"
    by blast
  from outbound_sends_sealed_to_peer [OF set(1,2), where wr = None and sb = nacl
      and b = "\<lparr>key = replicate 32 0, enable = True\<rparr>" and rnd = "Inr (replicate 24 7)"
      and pkt = "[69, 0, 0, 28]"
      and sealed = "Seal nacl (replicate 24 7) [69, 0, 0, 28] (replicate 24 7) (replicate 32 0)"
      and peer = "UDPAddr [192, 0, 2, 1] 51820 []"]
    sl set(3,4)
  have b: "sent (trace (step_mini_overlay nacl \<lparr>key = replicate 32 0, enable = True\<rparr>
       (initial (Some (UDPAddr [192, 0, 2, 1] 51820 [])))
       (TunRead (Inr [69, 0, 0, 28]) (Inr (replicate 24 7)) None))) =
       [(Seal nacl (replicate 24 7) [69, 0, 0, 28] (replicate 24 7) (replicate 32 0),
         UDPAddr [192, 0, 2, 1] 51820 [])] \<and>
     sent (trace (step_keepalive nacl \<lparr>key = replicate 32 0, enable = True\<rparr>
       (initial (Some (UDPAddr [192, 0, 2, 1] 51820 [])))
       (TunRead (Inr [69, 0, 0, 28]) (Inr (replicate 24 7)) None))) =
       [(Seal nacl (replicate 24 7) [69, 0, 0, 28] (replicate 24 7) (replicate 32 0),
         UDPAddr [192, 0, 2, 1] 51820 [])]"
    by simp
  from outbound_sends_sealed_to_peer [OF set(1,2), where wr = None and sb = nacl
      and b = "\<lparr>key = replicate 32 0, enable = True\<rparr>" and rnd = "Inl (Error ''EOF'')"
      and pkt = "[69, 0, 0, 28]" and err = "Error ''EOF''"]
    fl
  have c: "step_mini_overlay nacl \<lparr>key = replicate 32 0, enable = True\<rparr>
       (initial (Some (UDPAddr [192, 0, 2, 1] 51820 [])))
       (TunRead (Inr [69, 0, 0, 28]) (Inl (Error ''EOF'')) None) =
       (initial (Some (UDPAddr [192, 0, 2, 1] 51820 [])))
         \<lparr>trace := trace (initial (Some (UDPAddr [192, 0, 2, 1] 51820 []))) @
            [LogPrintln ''seal:'' (Error ''EOF'')]\<rparr>"
    by blast
  from a b c show ?thesis by blast
qed

text \<open>
  C7, for the variant that has the keepalive goroutine: on a tick of its 15-second ticker,
  nothing happens when the peer address is unset; when it is set and sealing the single
  random byte gives a datagram, exactly that datagram is sent to the peer, and nothing when
  sealing fails. With encryption enabled the datagram has 41 bytes, with encryption disabled
  it is the byte itself. In \<^verbatim>\<open>mini_overlay.go\<close> a tick changes nothing.
\<close>

theorem keepalive_tick:
  assumes "main_running s"
  shows "(raddr s = None \<longrightarrow> step_keepalive sb b s (Tick r rnd) = s) \<and>
         (raddr s = Some peer \<and> box_seal sb b [] rnd [r] = Inr msg \<longrightarrow>
            step_keepalive sb b s (Tick r rnd) = s\<lparr>trace := trace s @ [WriteToUDP msg peer]\<rparr>) \<and>
         (raddr s = Some peer \<and> box_seal sb b [] rnd [r] = Inl err \<longrightarrow>
            step_keepalive sb b s (Tick r rnd) = s) \<and>
         (secretbox_contract sb \<and> enable b \<and> length (key b) = 32 \<and> length nonce = 24 \<longrightarrow>
            (\<exists>d. box_seal sb b [] (Inr nonce) [r] = Inr d \<and> length d = 41)) \<and>
         (\<not> enable b \<longrightarrow> box_seal sb b [] rnd [r] = Inr [r]) \<and>
         step_mini_overlay sb b s (Tick r rnd) = s \<and>
         keepalive_seconds = 15"
proof (intro conjI impI)
  show "step_mini_overlay sb b s (Tick r rnd) = s"
    by (simp add: step_mini_overlay_def)
  show "keepalive_seconds = 15"
    by (simp add: keepalive_seconds_def)
next
  assume "secretbox_contract sb \<and> enable b \<and> length (key b) = 32 \<and> length nonce = 24"
  then show "\<exists>d. box_seal sb b [] (Inr nonce) [r] = Inr d \<and> length d = 41"
    using box_seal_length [of sb b nonce "[]" "[r]"] by simp
qed (use assms in \<open>simp_all add: step_keepalive_def keepalive_def box_seal_def\<close>)

theorem keepalive_tick_witness:
  "step_keepalive nacl \<lparr>key = replicate 32 0, enable = True\<rparr> (initial None)
     (Tick 7 (Inr (replicate 24 7))) = initial None \<and>
   step_keepalive nacl \<lparr>key = replicate 32 0, enable = True\<rparr>
     (initial (Some (UDPAddr [192, 0, 2, 1] 51820 []))) (Tick 7 (Inr (replicate 24 7))) =
     (initial (Some (UDPAddr [192, 0, 2, 1] 51820 [])))
       \<lparr>trace := trace (initial (Some (UDPAddr [192, 0, 2, 1] 51820 []))) @
          [WriteToUDP (Seal nacl (replicate 24 7) [7] (replicate 24 7) (replicate 32 0))
             (UDPAddr [192, 0, 2, 1] 51820 [])]\<rparr> \<and>
   step_keepalive nacl \<lparr>key = replicate 32 0, enable = True\<rparr>
     (initial (Some (UDPAddr [192, 0, 2, 1] 51820 []))) (Tick 7 (Inl (Error ''EOF''))) =
     initial (Some (UDPAddr [192, 0, 2, 1] 51820 [])) \<and>
   (\<exists>d. box_seal nacl \<lparr>key = replicate 32 0, enable = True\<rparr> [] (Inr (replicate 24 7)) [7] = Inr d \<and>
        length d = 41) \<and>
   box_seal nacl \<lparr>key = replicate 32 0, enable = False\<rparr> [] (Inl (Error ''EOF'')) [7] = Inr [7] \<and>
   step_mini_overlay nacl \<lparr>key = replicate 32 0, enable = True\<rparr>
     (initial (Some (UDPAddr [192, 0, 2, 1] 51820 []))) (Tick 7 (Inr (replicate 24 7))) =
     initial (Some (UDPAddr [192, 0, 2, 1] 51820 [])) \<and>
   keepalive_seconds = 15"
proof -
  let ?on = "\<lparr>key = replicate 32 0, enable = True\<rparr>"
  let ?off = "\<lparr>key = replicate 32 0, enable = False\<rparr>"
  let ?A = "UDPAddr [192, 0, 2, 1] 51820 []"
  have sl: "box_seal nacl ?on [] (Inr (replicate 24 7)) [7] =
      Inr (Seal nacl (replicate 24 7) [7] (replicate 24 7) (replicate 32 0))"
    by (simp add: box_seal_enabled)
  have fl: "box_seal nacl ?on [] (Inl (Error ''EOF'')) [7] = Inl (Error ''EOF'')"
    by (simp add: box_seal_def)
  have unset: "main_running (initial None)" "raddr (initial None) = None"
    by (simp_all add: initial_def)
  have set: "main_running (initial (Some ?A))" "raddr (initial (Some ?A)) = Some ?A"
    by (simp_all add: initial_def)
  note k1 = keepalive_tick [OF unset(1), where sb = nacl and b = ?on and r = 7
      and rnd = "Inr (replicate 24 7)"]
  note k2 = keepalive_tick [OF set(1), where sb = nacl and b = ?on and r = 7
      and rnd = "Inr (replicate 24 7)" and peer = ?A and nonce = "replicate 24 7"
      and msg = "Seal nacl (replicate 24 7) [7] (replicate 24 7) (replicate 32 0)"]
  note k3 = keepalive_tick [OF set(1), where sb = nacl and b = ?on and r = 7
      and rnd = "Inl (Error ''EOF'')" and peer = ?A and err = "Error ''EOF''"]
  note k4 = keepalive_tick [OF set(1), where sb = nacl and b = ?off and r = 7
      and rnd = "Inl (Error ''EOF'')"]
  have c: "secretbox_contract nacl \<and> enable ?on \<and> length (key ?on) = 32 \<and>
      length (replicate 24 (7 :: byte)) = 24"
    using nacl_contract by simp
  have d: "\<not> enable ?off" by simp
  from k1 unset(2) have a1: "step_keepalive nacl ?on (initial None) (Tick 7 (Inr (replicate 24 7))) =
      initial None" by blast
  from k2 set(2) sl c k3 fl k4 d a1 show ?thesis by blast
qed

text \<open>
  \<^verbatim>\<open>mini_overlay.go\<close> has no keepalive goroutine: with the peer address set, the keepalive
  period elapsing sends no datagram.
\<close>

theorem no_keepalive_in_mini_overlay:
  "raddr (initial (Some (UDPAddr [192, 0, 2, 1] 51820 []))) = Some (UDPAddr [192, 0, 2, 1] 51820 []) \<and>
   main_running (initial (Some (UDPAddr [192, 0, 2, 1] 51820 []))) \<and>
   sent (trace (step_mini_overlay nacl \<lparr>key = replicate 32 0, enable = True\<rparr>
     (initial (Some (UDPAddr [192, 0, 2, 1] 51820 []))) (Tick 7 (Inr (replicate 24 7))))) = []"
  by (simp add: step_mini_overlay_def initial_def)

text \<open>
  C9, as the code has it: a failed TUN read is logged and ends the outbound loop, leaving the
  inbound loop, \<^verbatim>\<open>main\<close> and the peer address as they are; a failed TUN write is logged and
  the inbound loop, the outbound loop and \<^verbatim>\<open>main\<close> all keep running. In both variants.
\<close>

theorem tun_failures:
  assumes "main_running s"
  shows "(outbound_running s \<longrightarrow>
            step_mini_overlay sb b s (TunRead (Inl err) rnd wr) =
              s\<lparr>trace := trace s @ [LogPrintln ''tun read:'' err], outbound_running := False\<rparr> \<and>
            step_keepalive sb b s (TunRead (Inl err) rnd wr) =
              s\<lparr>trace := trace s @ [LogPrintln ''tun read:'' err], outbound_running := False\<rparr>) \<and>
         (inbound_running s \<and> box_open sb b [] pkt = Some plain \<longrightarrow>
            step_mini_overlay sb b s (UdpRead (Inr (pkt, sender)) (Some err)) =
              (learn sender s)\<lparr>trace := trace (learn sender s) @
                 [TunWrite plain, LogPrintln ''tun write:'' err]\<rparr> \<and>
            step_keepalive sb b s (UdpRead (Inr (pkt, sender)) (Some err)) =
              (learn sender s)\<lparr>trace := trace (learn sender s) @
                 [TunWrite plain, LogPrintln ''tun write:'' err]\<rparr> \<and>
            inbound_running (step_mini_overlay sb b s (UdpRead (Inr (pkt, sender)) (Some err))) \<and>
            inbound_running (step_keepalive sb b s (UdpRead (Inr (pkt, sender)) (Some err))) \<and>
            outbound_running (step_mini_overlay sb b s (UdpRead (Inr (pkt, sender)) (Some err))) =
              outbound_running s \<and>
            outbound_running (step_keepalive sb b s (UdpRead (Inr (pkt, sender)) (Some err))) =
              outbound_running s \<and>
            main_running (step_mini_overlay sb b s (UdpRead (Inr (pkt, sender)) (Some err))) \<and>
            main_running (step_keepalive sb b s (UdpRead (Inr (pkt, sender)) (Some err))))"
  using assms
  by (simp add: step_mini_overlay_def step_keepalive_def outbound_def inbound_def Let_def
      learn_flags)

theorem tun_failures_witness:
  "step_mini_overlay nacl \<lparr>key = replicate 32 0, enable = False\<rparr> (initial None)
     (TunRead (Inl (Error ''EIO'')) (Inl (Error ''EOF'')) None) =
     (initial None)\<lparr>trace := trace (initial None) @ [LogPrintln ''tun read:'' (Error ''EIO'')],
        outbound_running := False\<rparr> \<and>
   step_keepalive nacl \<lparr>key = replicate 32 0, enable = False\<rparr> (initial None)
     (TunRead (Inl (Error ''EIO'')) (Inl (Error ''EOF'')) None) =
     (initial None)\<lparr>trace := trace (initial None) @ [LogPrintln ''tun read:'' (Error ''EIO'')],
        outbound_running := False\<rparr> \<and>
   inbound_running (step_mini_overlay nacl \<lparr>key = replicate 32 0, enable = False\<rparr> (initial None)
     (UdpRead (Inr ([1, 2, 3], UDPAddr [203, 0, 113, 9] 40000 [])) (Some (Error ''EIO'')))) \<and>
   inbound_running (step_keepalive nacl \<lparr>key = replicate 32 0, enable = False\<rparr> (initial None)
     (UdpRead (Inr ([1, 2, 3], UDPAddr [203, 0, 113, 9] 40000 [])) (Some (Error ''EIO'')))) \<and>
   main_running (step_mini_overlay nacl \<lparr>key = replicate 32 0, enable = False\<rparr> (initial None)
     (UdpRead (Inr ([1, 2, 3], UDPAddr [203, 0, 113, 9] 40000 [])) (Some (Error ''EIO'')))) \<and>
   main_running (step_keepalive nacl \<lparr>key = replicate 32 0, enable = False\<rparr> (initial None)
     (UdpRead (Inr ([1, 2, 3], UDPAddr [203, 0, 113, 9] 40000 [])) (Some (Error ''EIO''))))"
proof -
  let ?off = "\<lparr>key = replicate 32 0, enable = False\<rparr>"
  have run: "main_running (initial None)" "outbound_running (initial None)"
    "inbound_running (initial None)"
    by (simp_all add: initial_def)
  have op: "box_open nacl ?off [] [1, 2, 3] = Some [1, 2, 3]"
    by (simp add: box_open_def)
  from tun_failures [OF run(1), where sb = nacl and b = ?off and err = "Error ''EIO''"
      and rnd = "Inl (Error ''EOF'')" and wr = None and pkt = "[1, 2, 3]" and plain = "[1, 2, 3]"
      and sender = "UDPAddr [203, 0, 113, 9] 40000 []"] run(2,3) op
  show ?thesis by blast
qed

text \<open>
  A failed TUN write does not end the inbound loop: after it the loop is still running, and
  the next datagram is written to the TUN device.
\<close>

theorem inbound_survives_tun_write_failure:
  "inbound_running (step_mini_overlay nacl \<lparr>key = replicate 32 0, enable = False\<rparr> (initial None)
     (UdpRead (Inr ([1, 2, 3], UDPAddr [203, 0, 113, 9] 40000 [])) (Some (Error ''EIO'')))) \<and>
   trace (step_mini_overlay nacl \<lparr>key = replicate 32 0, enable = False\<rparr> (initial None)
     (UdpRead (Inr ([1, 2, 3], UDPAddr [203, 0, 113, 9] 40000 [])) (Some (Error ''EIO'')))) =
     [PeerLearned (UDPAddr [203, 0, 113, 9] 40000 []), TunWrite [1, 2, 3],
      LogPrintln ''tun write:'' (Error ''EIO'')] \<and>
   trace (run (step_mini_overlay nacl \<lparr>key = replicate 32 0, enable = False\<rparr>) (initial None)
     [UdpRead (Inr ([1, 2, 3], UDPAddr [203, 0, 113, 9] 40000 [])) (Some (Error ''EIO'')),
      UdpRead (Inr ([4, 5], UDPAddr [203, 0, 113, 9] 40000 [])) None]) =
     [PeerLearned (UDPAddr [203, 0, 113, 9] 40000 []), TunWrite [1, 2, 3],
      LogPrintln ''tun write:'' (Error ''EIO''), TunWrite [4, 5]]"
  by (simp add: step_mini_overlay_def inbound_def learn_def initial_def box_open_def)

end
